theory Spec2Isabelle
  imports Complex_Main "HOL-Library.Sublist"
begin

section \<open>Values exchanged with the wrapped framework\<close>

text \<open>
  The notebooks \<^verbatim>\<open>torch-use-gpu.ipynb\<close> (training) and \<^verbatim>\<open>torch-test-model.ipynb\<close>
  (companion) are glue around a tensor framework. The glue is embedded function by
  function; what the framework computes inside a call (the numbers in a tensor, the
  gradients, the optimiser's update rule) is a parameter of the embedding, the record
  \<open>framework\<close> below, over an abstract type \<open>'v\<close> of tensor contents and an abstract type
  \<open>'a\<close> of gradient buffers and optimiser accumulators.

  A device is the string the source passes to \<^verbatim>\<open>torch.device\<close>. The environment has at
  most one accelerator, \<^verbatim>\<open>cuda:0\<close>.
\<close>

type_synonym torch_device = string

datatype error =
    NoAccelerator
  | InvalidDevice
  | DeviceMismatch
  | ZeroDivisionError
  | InvalidBatchSize
  | KernelError string
  | FileNotFound string
  | NotAStateDict string
  | DatasetNotFound string
  | StateDictMismatch

datatype reduction = Reduce_mean | Reduce_sum

text \<open>Python numbers: \<^verbatim>\<open>.item()\<close> yields an int or a float. Floats are idealised as reals;
  the only arithmetic the notebooks do on them is the running sum and the average of the
  evaluation report.\<close>

datatype number = PyInt int | PyFloat real

fun to_real :: "number \<Rightarrow> real" where
  "to_real (PyInt i) = of_int i"
| "to_real (PyFloat r) = r"

fun py_add :: "number \<Rightarrow> number \<Rightarrow> number" where
  "py_add (PyInt i) (PyInt j) = PyInt (i + j)"
| "py_add x y = PyFloat (to_real x + to_real y)"

fun py_mul :: "number \<Rightarrow> number \<Rightarrow> number" where
  "py_mul (PyInt i) (PyInt j) = PyInt (i * j)"
| "py_mul x y = PyFloat (to_real x * to_real y)"

definition py_truediv :: "number \<Rightarrow> number \<Rightarrow> error + number" where
  "py_truediv x y = (if to_real y = 0 then Inl ZeroDivisionError else Inr (PyFloat (to_real x / to_real y)))"

record 'v tensor =
  tdev :: torch_device
  tval :: 'v

text \<open>Every call into the framework is recorded: which call, whether gradient recording
  was enabled when it was made, and the devices of the tensors it combines.\<close>

datatype call =
    Call_to torch_device
  | Call_cuda
  | Call_int_tensor
  | Call_cuda_int_tensor torch_device
  | Call_module_to torch_device
  | Call_train
  | Call_eval
  | Call_view nat
  | Call_linear string
  | Call_relu
  | Call_softmax nat
  | Call_nll_loss reduction
  | Call_argmax nat bool
  | Call_view_as
  | Call_eq
  | Call_sum
  | Call_item
  | Call_squeeze
  | Call_index
  | Call_zero_grad
  | Call_backward
  | Call_step
  | Call_adadelta
  | Call_state_dict
  | Call_load_state_dict
  | Call_save string
  | Call_load string
  | Call_dataset string bool bool
  | Call_dataloader nat

record entry =
  e_call :: call
  e_grad :: bool
  e_devs :: "torch_device list"

record ('v, 'a) framework =
  fw_kernel :: "call \<Rightarrow> bool \<Rightarrow> 'v list \<Rightarrow> error + 'v"
  fw_item :: "'v \<Rightarrow> error + number"
  fw_int_tensor :: "int list \<Rightarrow> 'v"
  fw_zero_grad :: "'a \<Rightarrow> 'a"
  fw_backward :: "'v \<Rightarrow> 'a \<Rightarrow> error + 'a"
  fw_step :: "'v \<times> 'v \<times> 'v \<times> 'v \<Rightarrow> 'a \<Rightarrow> ('v \<times> 'v \<times> 'v \<times> 'v) \<times> 'a"
  fw_adadelta :: "real \<Rightarrow> 'v \<times> 'v \<times> 'v \<times> 'v \<Rightarrow> 'a \<Rightarrow> 'a"
  fw_transform :: "'v \<Rightarrow> 'v"
  fw_collate :: "'v list \<Rightarrow> 'v"

section \<open>The model class\<close>

text \<open>
  \<^verbatim>\<open>
  class SimpleNet(nn.Module):
      def __init__(self):
          super(SimpleNet, self).__init__()
          self.fc1 = nn.Linear(784, 784)
          self.fc2 = nn.Linear(784, 10)
  \<close>
  \<^verbatim>\<open>nn.Linear(n_in, n_out)\<close> owns a weight of shape \<open>[n_out, n_in]\<close> and a bias of shape
  \<open>[n_out]\<close>, created on the CPU with random contents; \<open>rnd\<close> stands for the draw. A new
  module is in training mode.
\<close>

record 'v Linear =
  in_features :: nat
  out_features :: nat
  weight :: "'v tensor"
  bias :: "'v tensor"

record 'v SimpleNet =
  fc1 :: "'v Linear"
  fc2 :: "'v Linear"
  training :: bool

definition nn_Linear :: "(nat list \<Rightarrow> 'v) \<Rightarrow> nat \<Rightarrow> nat \<Rightarrow> 'v Linear" where
  "nn_Linear rnd n_in n_out =
     \<lparr>in_features = n_in, out_features = n_out,
      weight = \<lparr>tdev = ''cpu'', tval = rnd [n_out, n_in]\<rparr>,
      bias = \<lparr>tdev = ''cpu'', tval = rnd [n_out]\<rparr>\<rparr>"

definition SimpleNet_init :: "(nat list \<Rightarrow> 'v) \<Rightarrow> 'v SimpleNet" where
  "SimpleNet_init rnd =
     \<lparr>fc1 = nn_Linear rnd 784 784, fc2 = nn_Linear rnd 784 10, training = True\<rparr>"

definition parameters :: "'v SimpleNet \<Rightarrow> 'v tensor list" where
  "parameters m = [weight (fc1 m), bias (fc1 m), weight (fc2 m), bias (fc2 m)]"

definition state_dict :: "'v SimpleNet \<Rightarrow> (string \<times> 'v tensor) list" where
  "state_dict m =
     [(''fc1.weight'', weight (fc1 m)), (''fc1.bias'', bias (fc1 m)),
      (''fc2.weight'', weight (fc2 m)), (''fc2.bias'', bias (fc2 m))]"

definition parameter_values :: "'v SimpleNet \<Rightarrow> 'v \<times> 'v \<times> 'v \<times> 'v" where
  "parameter_values m =
     (tval (weight (fc1 m)), tval (bias (fc1 m)), tval (weight (fc2 m)), tval (bias (fc2 m)))"

definition set_parameter_values :: "'v \<times> 'v \<times> 'v \<times> 'v \<Rightarrow> 'v SimpleNet \<Rightarrow> 'v SimpleNet" where
  "set_parameter_values p m =
     (case p of (w1, b1, w2, b2) \<Rightarrow>
        m\<lparr>fc1 := (fc1 m)\<lparr>weight := (weight (fc1 m))\<lparr>tval := w1\<rparr>, bias := (bias (fc1 m))\<lparr>tval := b1\<rparr>\<rparr>,
          fc2 := (fc2 m)\<lparr>weight := (weight (fc2 m))\<lparr>tval := w2\<rparr>, bias := (bias (fc2 m))\<lparr>tval := b2\<rparr>\<rparr>\<rparr>)"

definition move_parameters :: "torch_device \<Rightarrow> 'v SimpleNet \<Rightarrow> 'v SimpleNet" where
  "move_parameters d m =
     m\<lparr>fc1 := (fc1 m)\<lparr>weight := (weight (fc1 m))\<lparr>tdev := d\<rparr>, bias := (bias (fc1 m))\<lparr>tdev := d\<rparr>\<rparr>,
       fc2 := (fc2 m)\<lparr>weight := (weight (fc2 m))\<lparr>tdev := d\<rparr>, bias := (bias (fc2 m))\<lparr>tdev := d\<rparr>\<rparr>\<rparr>"

section \<open>The state of a notebook kernel\<close>

datatype 'v artifact =
    Weights "(string \<times> 'v tensor) list"
  | Dataset_dir "('v \<times> 'v) list" "('v \<times> 'v) list"

datatype out =
    Out_device torch_device
  | Out_placement bool torch_device
  | Out_epoch nat
  | Out_report number number nat number

record ('v, 'a) world =
  cuda_available :: bool
  model :: "'v SimpleNet"
  optimizer :: 'a
  grad_enabled :: bool
  files :: "string \<Rightarrow> 'v artifact option"
  stdout :: "out list"
  trace :: "entry list"

text \<open>A statement either returns a value or raises; the state it leaves survives the
  exception, as in Python.\<close>

type_synonym ('r, 'v, 'a) prog = "('v, 'a) world \<Rightarrow> (error + 'r) \<times> ('v, 'a) world"

definition returnE :: "'r \<Rightarrow> ('r, 'v, 'a) prog" where
  "returnE x w = (Inr x, w)"

definition raiseE :: "error \<Rightarrow> ('r, 'v, 'a) prog" where
  "raiseE e w = (Inl e, w)"

definition bindE :: "('r, 'v, 'a) prog \<Rightarrow> ('r \<Rightarrow> ('q, 'v, 'a) prog) \<Rightarrow> ('q, 'v, 'a) prog" where
  "bindE m f w = (case m w of (Inl e, w') \<Rightarrow> (Inl e, w') | (Inr x, w') \<Rightarrow> f x w')"

definition liftE :: "error + 'r \<Rightarrow> ('r, 'v, 'a) prog" where
  "liftE x w = (x, w)"

definition readW :: "(('v, 'a) world \<Rightarrow> 'r) \<Rightarrow> ('r, 'v, 'a) prog" where
  "readW f w = (Inr (f w), w)"

definition modifyW :: "(('v, 'a) world \<Rightarrow> ('v, 'a) world) \<Rightarrow> (unit, 'v, 'a) prog" where
  "modifyW f w = (Inr (), f w)"

definition logE :: "call \<Rightarrow> torch_device list \<Rightarrow> (unit, 'v, 'a) prog" where
  "logE c ds w =
     (Inr (), w\<lparr>trace := trace w @ [\<lparr>e_call = c, e_grad = grad_enabled w, e_devs = ds\<rparr>]\<rparr>)"

definition print :: "out \<Rightarrow> (unit, 'v, 'a) prog" where
  "print x = modifyW (\<lambda>w. w\<lparr>stdout := stdout w @ [x]\<rparr>)"

primrec foldE :: "'x list \<Rightarrow> ('x \<Rightarrow> 'acc \<Rightarrow> ('acc, 'v, 'a) prog) \<Rightarrow> 'acc \<Rightarrow> ('acc, 'v, 'a) prog" where
  "foldE [] body acc = returnE acc"
| "foldE (x # xs) body acc = bindE (body x acc) (foldE xs body)"

text \<open>\<^verbatim>\<open>with torch.no_grad():\<close> switches gradient recording off for its body and restores
  the previous mode when the body ends, also when it ends by an exception.\<close>

definition no_grad :: "('r, 'v, 'a) prog \<Rightarrow> ('r, 'v, 'a) prog" where
  "no_grad body w =
     (case body (w\<lparr>grad_enabled := False\<rparr>) of
        (res, w') \<Rightarrow> (res, w'\<lparr>grad_enabled := grad_enabled w\<rparr>))"

section \<open>Framework calls\<close>

definition device_ok :: "torch_device \<Rightarrow> bool \<Rightarrow> error + unit" where
  "device_ok d available =
     (if d = ''cpu'' then Inr ()
      else if d = ''cuda:0'' then (if available then Inr () else Inl NoAccelerator)
      else Inl InvalidDevice)"

definition require_device :: "torch_device \<Rightarrow> (unit, 'v, 'a) prog" where
  "require_device d = bindE (readW cuda_available) (\<lambda>available. liftE (device_ok d available))"

definition same_device :: "'v tensor list \<Rightarrow> bool" where
  "same_device ts = list_all (\<lambda>t. tdev t = tdev (hd ts)) ts"

text \<open>A computation on tensors: the operands must share a device, the result lives
  there, and the framework's kernel for the call gives its contents or fails. The
  operands are recorded before the devices are compared, so a call that fails on mixed
  devices is in the record as well.\<close>

definition tensor_op :: "('v, 'a) framework \<Rightarrow> call \<Rightarrow> 'v tensor list \<Rightarrow> ('v tensor, 'v, 'a) prog" where
  "tensor_op F c ts =
     bindE (logE c (map tdev ts)) (\<lambda>_.
     if \<not> same_device ts then raiseE DeviceMismatch
     else
       bindE (readW grad_enabled) (\<lambda>g.
       bindE (liftE (fw_kernel F c g (map tval ts))) (\<lambda>v.
       returnE \<lparr>tdev = tdev (hd ts), tval = v\<rparr>)))"

definition Tensor_item :: "('v, 'a) framework \<Rightarrow> 'v tensor \<Rightarrow> (number, 'v, 'a) prog" where
  "Tensor_item F t = bindE (logE Call_item [tdev t]) (\<lambda>_. liftE (fw_item F (tval t)))"

definition Tensor_to :: "torch_device \<Rightarrow> 'v tensor \<Rightarrow> ('v tensor, 'v, 'a) prog" where
  "Tensor_to d t =
     bindE (logE (Call_to d) []) (\<lambda>_.
     bindE (require_device d) (\<lambda>_.
     returnE (t\<lparr>tdev := d\<rparr>)))"


definition IntTensor :: "('v, 'a) framework \<Rightarrow> int list \<Rightarrow> ('v tensor, 'v, 'a) prog" where
  "IntTensor F xs =
     bindE (logE Call_int_tensor []) (\<lambda>_.
     returnE \<lparr>tdev = ''cpu'', tval = fw_int_tensor F xs\<rparr>)"



definition Module_train :: "(unit, 'v, 'a) prog" where
  "Module_train =
     bindE (logE Call_train []) (\<lambda>_.
     modifyW (\<lambda>w. w\<lparr>model := (model w)\<lparr>training := True\<rparr>\<rparr>))"

definition Module_eval :: "(unit, 'v, 'a) prog" where
  "Module_eval =
     bindE (logE Call_eval []) (\<lambda>_.
     modifyW (\<lambda>w. w\<lparr>model := (model w)\<lparr>training := False\<rparr>\<rparr>))"

definition Optimizer_zero_grad :: "('v, 'a) framework \<Rightarrow> (unit, 'v, 'a) prog" where
  "Optimizer_zero_grad F =
     bindE (readW (\<lambda>w. map tdev (parameters (model w)))) (\<lambda>ds.
     bindE (logE Call_zero_grad ds) (\<lambda>_.
     modifyW (\<lambda>w. w\<lparr>optimizer := fw_zero_grad F (optimizer w)\<rparr>)))"

definition Tensor_backward :: "('v, 'a) framework \<Rightarrow> 'v tensor \<Rightarrow> (unit, 'v, 'a) prog" where
  "Tensor_backward F loss =
     bindE (logE Call_backward [tdev loss]) (\<lambda>_.
     bindE (readW optimizer) (\<lambda>a.
     bindE (liftE (fw_backward F (tval loss) a)) (\<lambda>a'.
     modifyW (\<lambda>w. w\<lparr>optimizer := a'\<rparr>))))"

definition Optimizer_step :: "('v, 'a) framework \<Rightarrow> (unit, 'v, 'a) prog" where
  "Optimizer_step F =
     bindE (readW (\<lambda>w. map tdev (parameters (model w)))) (\<lambda>ds.
     bindE (logE Call_step ds) (\<lambda>_.
     modifyW (\<lambda>w. case fw_step F (parameter_values (model w)) (optimizer w) of
        (p, a) \<Rightarrow> w\<lparr>model := set_parameter_values p (model w), optimizer := a\<rparr>)))"


definition F_nll_loss :: "('v, 'a) framework \<Rightarrow> reduction \<Rightarrow> 'v tensor \<Rightarrow> 'v tensor \<Rightarrow> ('v tensor, 'v, 'a) prog" where
  "F_nll_loss F r output target = tensor_op F (Call_nll_loss r) [output, target]"


definition Module_to :: "torch_device \<Rightarrow> 'v SimpleNet \<Rightarrow> ('v SimpleNet, 'v, 'a) prog" where
  "Module_to d m =
     bindE (logE (Call_module_to d) []) (\<lambda>_.
     bindE (require_device d) (\<lambda>_.
     returnE (move_parameters d m)))"





text \<open>\<^verbatim>\<open>datasets.FashionMNIST(root, train=..., download=..., transform=...)\<close>: with
  \<^verbatim>\<open>download=True\<close> the public data set \<open>remote\<close> is fetched into the directory unless it is
  there already; then the data set is read from the directory, and is not found when the
  directory does not hold it. The transform is applied to every image.\<close>

definition FashionMNIST ::
  "('v, 'a) framework \<Rightarrow> ('v \<times> 'v) list \<times> ('v \<times> 'v) list \<Rightarrow> string \<Rightarrow> bool \<Rightarrow> bool
     \<Rightarrow> (('v \<times> 'v) list, 'v, 'a) prog" where
  "FashionMNIST F remote dir is_train download =
     bindE (logE (Call_dataset dir is_train download) []) (\<lambda>_.
     bindE (if download
            then modifyW (\<lambda>w. case files w dir of
                                 Some (Dataset_dir tr te) \<Rightarrow> w
                               | _ \<Rightarrow> w\<lparr>files := (files w)(dir \<mapsto> Dataset_dir (fst remote) (snd remote))\<rparr>)
            else returnE ()) (\<lambda>_.
     bindE (readW (\<lambda>w. files w dir)) (\<lambda>a.
     case a of
       Some (Dataset_dir tr te) \<Rightarrow>
         returnE (map (\<lambda>(img, label). (fw_transform F img, label)) (if is_train then tr else te))
     | _ \<Rightarrow> raiseE (DatasetNotFound dir))))"

function chunks :: "nat \<Rightarrow> 'x list \<Rightarrow> 'x list list" where
  "chunks n xs = (if n = 0 \<or> xs = [] then [] else take n xs # chunks n (drop n xs))"
  by pat_completeness auto
termination
  by (relation "measure (\<lambda>(n, xs). length xs)") auto

declare chunks.simps [simp del]

record 'v loader =
  batches :: "('v tensor \<times> 'v tensor) list"
  dataset_len :: nat

definition collate_batch :: "('v, 'a) framework \<Rightarrow> ('v \<times> 'v) list \<Rightarrow> 'v tensor \<times> 'v tensor" where
  "collate_batch F samples =
     (\<lparr>tdev = ''cpu'', tval = fw_collate F (map fst samples)\<rparr>,
      \<lparr>tdev = ''cpu'', tval = fw_collate F (map snd samples)\<rparr>)"

definition DataLoader :: "('v, 'a) framework \<Rightarrow> ('v \<times> 'v) list \<Rightarrow> nat \<Rightarrow> ('v loader, 'v, 'a) prog" where
  "DataLoader F samples n =
     bindE (logE (Call_dataloader n) []) (\<lambda>_.
     if n = 0 then raiseE InvalidBatchSize
     else returnE \<lparr>batches = map (collate_batch F) (chunks n samples), dataset_len = length samples\<rparr>)"

section \<open>The functions of the notebooks\<close>

text \<open>
  \<^verbatim>\<open>
      def forward(self, x):
          x = x.view(batch_size, -1)
          x = self.fc1(x)
          x = F.relu(x)
          x = self.fc2(x)
          output = F.softmax(x, dim=1)
          return output
  \<close>
  \<open>batch_size\<close> is a global of the notebook: 100 in the training notebook, 1 in the
  companion.
\<close>

definition forward :: "('v, 'a) framework \<Rightarrow> nat \<Rightarrow> 'v tensor \<Rightarrow> ('v tensor, 'v, 'a) prog" where
  "forward F batch_size x =
     bindE (tensor_op F (Call_view batch_size) [x]) (\<lambda>x.
     bindE (readW (\<lambda>w. fc1 (model w))) (\<lambda>self_fc1.
     bindE (tensor_op F (Call_linear ''fc1'') [x, weight self_fc1, bias self_fc1]) (\<lambda>x.
     bindE (tensor_op F Call_relu [x]) (\<lambda>x.
     bindE (readW (\<lambda>w. fc2 (model w))) (\<lambda>self_fc2.
     bindE (tensor_op F (Call_linear ''fc2'') [x, weight self_fc2, bias self_fc2]) (\<lambda>x.
     bindE (tensor_op F (Call_softmax 1) [x]) (\<lambda>output.
     returnE output)))))))"

text \<open>
  \<^verbatim>\<open>
  def train(model, device, train_loader, optimizer, epoch):
      model.train()
      print(device)
      for batch_idx, (data, target) in tqdm(enumerate(train_loader)):
          data, target = data.to(device), target.to(device)
          optimizer.zero_grad()
          output = model(data)
          loss = F.nll_loss(output, target)
          loss.backward()
          optimizer.step()
  \<close>
  The model and the optimiser are the objects of the kernel state. \<^verbatim>\<open>enumerate\<close> and
  \<^verbatim>\<open>tqdm\<close> only wrap the iteration over the loader: \<^verbatim>\<open>batch_idx\<close> is not used and the
  progress bar is not part of the standard output.
\<close>

definition train_batch ::
  "('v, 'a) framework \<Rightarrow> torch_device \<Rightarrow> nat \<Rightarrow> 'v tensor \<times> 'v tensor \<Rightarrow> unit \<Rightarrow> (unit, 'v, 'a) prog" where
  "train_batch F d batch_size b u =
     (case b of (data, target) \<Rightarrow>
        bindE (Tensor_to d data) (\<lambda>data.
        bindE (Tensor_to d target) (\<lambda>target.
        bindE (Optimizer_zero_grad F) (\<lambda>_.
        bindE (forward F batch_size data) (\<lambda>output.
        bindE (F_nll_loss F Reduce_mean output target) (\<lambda>loss.
        bindE (Tensor_backward F loss) (\<lambda>_.
        Optimizer_step F)))))))"

definition train ::
  "('v, 'a) framework \<Rightarrow> torch_device \<Rightarrow> nat \<Rightarrow> 'v loader \<Rightarrow> nat \<Rightarrow> (unit, 'v, 'a) prog" where
  "train F d batch_size train_loader epoch =
     bindE Module_train (\<lambda>_.
     bindE (print (Out_device d)) (\<lambda>_.
     foldE (batches train_loader) (train_batch F d batch_size) ()))"

text \<open>
  The training notebook defines \<^verbatim>\<open>test\<close> in two successive cells. Both are embedded, the
  first as \<open>test_v1\<close>; the second, which is the one the epoch loop calls, as \<open>test\<close>.
  \<^verbatim>\<open>
  def test(model, device, test_loader):
      model.eval()
      test_loss = 0
      correct = 0
      with torch.no_grad():
          for data, target in test_loader:
              data, target = data.to(device), target.to(device)
              output = model(data)
              test_loss += F.nll_loss(output, target, reduction='sum').item()
              pred = output.argmax(dim=1, keepdim=True)
              correct += pred.eq(target.view_as(pred)).sum().item()
      test_loss /= len(test_loader.dataset)
      print('... Average loss: {:.4f}, Accuracy: {}/{} ({:.0f}%)'.format(
          test_loss, correct, len(test_loader.dataset),
          100. * correct / len(test_loader.dataset)))
  \<close>
\<close>

definition test_v1_batch ::
  "('v, 'a) framework \<Rightarrow> torch_device \<Rightarrow> nat \<Rightarrow> 'v tensor \<times> 'v tensor \<Rightarrow> number \<times> number
     \<Rightarrow> (number \<times> number, 'v, 'a) prog" where
  "test_v1_batch F d batch_size b acc =
     (case b of (data, target) \<Rightarrow> case acc of (test_loss, correct) \<Rightarrow>
        bindE (Tensor_to d data) (\<lambda>data.
        bindE (Tensor_to d target) (\<lambda>target.
        bindE (forward F batch_size data) (\<lambda>output.
        bindE (F_nll_loss F Reduce_sum output target) (\<lambda>batch_loss.
        bindE (Tensor_item F batch_loss) (\<lambda>batch_loss.
        bindE (tensor_op F (Call_argmax 1 True) [output]) (\<lambda>pred.
        bindE (tensor_op F Call_view_as [target, pred]) (\<lambda>target_view.
        bindE (tensor_op F Call_eq [pred, target_view]) (\<lambda>hits.
        bindE (tensor_op F Call_sum [hits]) (\<lambda>hits.
        bindE (Tensor_item F hits) (\<lambda>hits.
        returnE (py_add test_loss batch_loss, py_add correct hits))))))))))))"

definition test_v1 ::
  "('v, 'a) framework \<Rightarrow> torch_device \<Rightarrow> nat \<Rightarrow> 'v loader \<Rightarrow> (unit, 'v, 'a) prog" where
  "test_v1 F d batch_size test_loader =
     bindE Module_eval (\<lambda>_.
     bindE (no_grad (foldE (batches test_loader) (test_v1_batch F d batch_size) (PyInt 0, PyInt 0)))
       (\<lambda>(test_loss, correct).
     bindE (liftE (py_truediv test_loss (PyInt (int (dataset_len test_loader))))) (\<lambda>test_loss.
     bindE (liftE (py_truediv (py_mul (PyFloat 100) correct) (PyInt (int (dataset_len test_loader)))))
       (\<lambda>percent.
     print (Out_report test_loss correct (dataset_len test_loader) percent)))))"

definition test_batch ::
  "('v, 'a) framework \<Rightarrow> torch_device \<Rightarrow> nat \<Rightarrow> 'v tensor \<times> 'v tensor \<Rightarrow> number \<times> number
     \<Rightarrow> (number \<times> number, 'v, 'a) prog" where
  "test_batch F d batch_size b acc =
     (case b of (data, target) \<Rightarrow> case acc of (test_loss, correct) \<Rightarrow>
        bindE (Tensor_to d data) (\<lambda>data.
        bindE (Tensor_to d target) (\<lambda>target.
        bindE (forward F batch_size data) (\<lambda>output.
        bindE (F_nll_loss F Reduce_sum output target) (\<lambda>batch_loss.
        bindE (Tensor_item F batch_loss) (\<lambda>batch_loss.
        bindE (tensor_op F (Call_argmax 1 True) [output]) (\<lambda>pred.
        bindE (tensor_op F Call_view_as [target, pred]) (\<lambda>target_view.
        bindE (tensor_op F Call_eq [pred, target_view]) (\<lambda>hits.
        bindE (tensor_op F Call_sum [hits]) (\<lambda>hits.
        bindE (Tensor_item F hits) (\<lambda>hits.
        returnE (py_add test_loss batch_loss, py_add correct hits))))))))))))"

definition test ::
  "('v, 'a) framework \<Rightarrow> torch_device \<Rightarrow> nat \<Rightarrow> 'v loader \<Rightarrow> (unit, 'v, 'a) prog" where
  "test F d batch_size test_loader =
     bindE Module_eval (\<lambda>_.
     bindE (no_grad (foldE (batches test_loader) (test_batch F d batch_size) (PyInt 0, PyInt 0)))
       (\<lambda>(test_loss, correct).
     bindE (liftE (py_truediv test_loss (PyInt (int (dataset_len test_loader))))) (\<lambda>test_loss.
     bindE (liftE (py_truediv (py_mul (PyFloat 100) correct) (PyInt (int (dataset_len test_loader)))))
       (\<lambda>percent.
     print (Out_report test_loss correct (dataset_len test_loader) percent)))))"

text \<open>
  \<^verbatim>\<open>
  def get_probs(model, x, y, device):
      model = model.to(device)
      x = x.to(device)
      y = y.to(device)
      with torch.no_grad():
          output = model(x)
          output = output.squeeze()
      return output, output[y]
  \<close>
  \<^verbatim>\<open>Module.to\<close> moves the module's parameters in place and returns the module.
\<close>

definition get_probs ::
  "('v, 'a) framework \<Rightarrow> nat \<Rightarrow> 'v tensor \<Rightarrow> 'v tensor \<Rightarrow> torch_device
     \<Rightarrow> ('v tensor \<times> 'v tensor, 'v, 'a) prog" where
  "get_probs F batch_size x y d =
     bindE (readW model) (\<lambda>m.
     bindE (Module_to d m) (\<lambda>m.
     bindE (modifyW (\<lambda>w. w\<lparr>model := m\<rparr>)) (\<lambda>_.
     bindE (Tensor_to d x) (\<lambda>x.
     bindE (Tensor_to d y) (\<lambda>y.
     bindE (no_grad (bindE (forward F batch_size x) (\<lambda>output. tensor_op F Call_squeeze [output])))
       (\<lambda>output.
     bindE (tensor_op F Call_index [output, y]) (\<lambda>ground_truth.
     returnE (output, ground_truth))))))))"

section \<open>The cells of the notebooks\<close>

text \<open>\<^verbatim>\<open>device = torch.device("cuda:0" if torch.cuda.is_available() else "cpu")\<close> followed by
  \<^verbatim>\<open>print(device)\<close>; the same cell opens both notebooks.\<close>

definition device :: "bool \<Rightarrow> torch_device" where
  "device available = (if available then ''cuda:0'' else ''cpu'')"

definition device_cell :: "(torch_device, 'v, 'a) prog" where
  "device_cell =
     bindE (readW cuda_available) (\<lambda>available.
     bindE (print (Out_device (device available))) (\<lambda>_.
     returnE (device available)))"


subsection \<open>Training notebook\<close>

text \<open>
  \<^verbatim>\<open>
  X_train = torch.IntTensor([0, 30, 50, 75, 70])
  print(X_train.is_cuda, ",", X_train.device)
  \<close>
  \<^verbatim>\<open>
  X_train = X_train.cuda()
  print(X_train.is_cuda, ",", X_train.device)
  \<close>
  \<^verbatim>\<open>
  X_test = torch.cuda.IntTensor([30, 40, 50], device=device)
  print(X_test.is_cuda, ",", X_test.device)
  \<close>
\<close>

definition is_cuda :: "'v tensor \<Rightarrow> bool" where
  "is_cuda t = (take 4 (tdev t) = ''cuda'')"

definition X_train_cell :: "('v, 'a) framework \<Rightarrow> ('v tensor, 'v, 'a) prog" where
  "X_train_cell F =
     bindE (IntTensor F [0, 30, 50, 75, 70]) (\<lambda>X_train.
     bindE (print (Out_placement (is_cuda X_train) (tdev X_train))) (\<lambda>_.
     returnE X_train))"



text \<open>\<^verbatim>\<open>batch_size = 100\<close> and \<^verbatim>\<open>model = SimpleNet().to(device)\<close>.\<close>

definition batch_size_training :: nat where
  "batch_size_training = 100"

definition model_cell :: "(nat list \<Rightarrow> 'v) \<Rightarrow> torch_device \<Rightarrow> (unit, 'v, 'a) prog" where
  "model_cell rnd d =
     bindE (Module_to d (SimpleNet_init rnd)) (\<lambda>m.
     modifyW (\<lambda>w. w\<lparr>model := m\<rparr>))"

text \<open>
  \<^verbatim>\<open>
  trainset = datasets.FashionMNIST('./data', train=True, download=True, transform=train_transform)
  train_loader = torch.utils.data.DataLoader(trainset, batch_size=batch_size, shuffle=False, num_workers=2)
  testset = datasets.FashionMNIST('./data', train=False, transform=test_transform)
  test_loader = torch.utils.data.DataLoader(testset, batch_size=batch_size, shuffle=False, num_workers=2)
  \<close>
\<close>

definition data_cell ::
  "('v, 'a) framework \<Rightarrow> ('v \<times> 'v) list \<times> ('v \<times> 'v) list \<Rightarrow> ('v loader \<times> 'v loader, 'v, 'a) prog" where
  "data_cell F remote =
     bindE (FashionMNIST F remote ''./data'' True True) (\<lambda>trainset.
     bindE (DataLoader F trainset batch_size_training) (\<lambda>train_loader.
     bindE (FashionMNIST F remote ''./data'' False False) (\<lambda>testset.
     bindE (DataLoader F testset batch_size_training) (\<lambda>test_loader.
     returnE (train_loader, test_loader)))))"

text \<open>
  \<^verbatim>\<open>
  EPOCHS = 5
  optimizer = optim.Adadelta(model.parameters(), lr=0.01)
  \<close>
  \<^verbatim>\<open>
  for epoch in range(1, EPOCHS + 1):
          print( f"EPOCH: {epoch}")
          train(model, device, train_loader, optimizer, epoch)
          test(model, device, test_loader)
  \<close>
  \<^verbatim>\<open>
  torch.save(model.state_dict(), "mnist_fashion_SimpleNet.pt")
  \<close>
\<close>

definition EPOCHS :: nat where
  "EPOCHS = 5"


definition epoch_body ::
  "('v, 'a) framework \<Rightarrow> torch_device \<Rightarrow> 'v loader \<Rightarrow> 'v loader \<Rightarrow> nat \<Rightarrow> unit \<Rightarrow> (unit, 'v, 'a) prog" where
  "epoch_body F d train_loader test_loader epoch u =
     bindE (print (Out_epoch epoch)) (\<lambda>_.
     bindE (train F d batch_size_training train_loader epoch) (\<lambda>_.
     test F d batch_size_training test_loader))"

definition epochs_cell ::
  "('v, 'a) framework \<Rightarrow> torch_device \<Rightarrow> 'v loader \<Rightarrow> 'v loader \<Rightarrow> (unit, 'v, 'a) prog" where
  "epochs_cell F d train_loader test_loader =
     foldE [1..<EPOCHS + 1] (epoch_body F d train_loader test_loader) ()"


subsection \<open>Companion notebook\<close>







section \<open>Observations on a run\<close>

text \<open>The framework calls a statement makes when run from a state.\<close>

definition new_entries :: "('r, 'v, 'a) prog \<Rightarrow> ('v, 'a) world \<Rightarrow> entry list" where
  "new_entries m w = drop (length (trace w)) (trace (snd (m w)))"

definition on_device :: "torch_device \<Rightarrow> 'v SimpleNet \<Rightarrow> bool" where
  "on_device d m = list_all (\<lambda>t. tdev t = d) (parameters m)"

text \<open>The contents \<^verbatim>\<open>forward\<close> computes, as a composition of the framework's kernels in the
  order view, first layer, activation, second layer, softmax.\<close>

definition then_kernel ::
  "error + 'v \<Rightarrow> ('v \<Rightarrow> error + 'v) \<Rightarrow> error + 'v" where
  "then_kernel x k = (case x of Inl e \<Rightarrow> Inl e | Inr v \<Rightarrow> k v)"

definition forward_value ::
  "('v, 'a) framework \<Rightarrow> bool \<Rightarrow> nat \<Rightarrow> 'v SimpleNet \<Rightarrow> 'v \<Rightarrow> error + 'v" where
  "forward_value F g batch_size m v =
     then_kernel (then_kernel (then_kernel (then_kernel
       (fw_kernel F (Call_view batch_size) g [v])
       (\<lambda>v. fw_kernel F (Call_linear ''fc1'') g [v, tval (weight (fc1 m)), tval (bias (fc1 m))]))
       (\<lambda>v. fw_kernel F Call_relu g [v]))
       (\<lambda>v. fw_kernel F (Call_linear ''fc2'') g [v, tval (weight (fc2 m)), tval (bias (fc2 m))]))
       (\<lambda>v. fw_kernel F (Call_softmax 1) g [v])"

definition forward_calls :: "nat \<Rightarrow> call list" where
  "forward_calls batch_size =
     [Call_view batch_size, Call_linear ''fc1'', Call_relu, Call_linear ''fc2'', Call_softmax 1]"

definition train_batch_calls :: "torch_device \<Rightarrow> nat \<Rightarrow> call list" where
  "train_batch_calls d batch_size =
     [Call_to d, Call_to d, Call_zero_grad] @ forward_calls batch_size @
     [Call_nll_loss Reduce_mean, Call_backward, Call_step]"

definition test_batch_calls :: "torch_device \<Rightarrow> nat \<Rightarrow> call list" where
  "test_batch_calls d batch_size =
     [Call_to d, Call_to d] @ forward_calls batch_size @
     [Call_nll_loss Reduce_sum, Call_item, Call_argmax 1 True, Call_view_as, Call_eq, Call_sum, Call_item]"

definition train_calls :: "torch_device \<Rightarrow> nat \<Rightarrow> 'v loader \<Rightarrow> call list" where
  "train_calls d batch_size train_loader =
     Call_train # concat (map (\<lambda>b. train_batch_calls d batch_size) (batches train_loader))"

definition test_calls :: "torch_device \<Rightarrow> nat \<Rightarrow> 'v loader \<Rightarrow> call list" where
  "test_calls d batch_size test_loader =
     Call_eval # concat (map (\<lambda>b. test_batch_calls d batch_size) (batches test_loader))"

text \<open>A statement satisfies \<open>triple I Q m R\<close> when, run from a state where \<open>I\<close> holds, it
  leaves a state where \<open>I\<close> holds, every call it makes satisfies \<open>Q\<close>, and a value it
  returns satisfies \<open>R\<close>.\<close>

definition triple ::
  "(('v, 'a) world \<Rightarrow> bool) \<Rightarrow> (entry \<Rightarrow> bool) \<Rightarrow> ('r, 'v, 'a) prog \<Rightarrow> ('r \<Rightarrow> bool) \<Rightarrow> bool" where
  "triple I Q m R =
     (\<forall>w. I w \<longrightarrow>
        (case m w of (res, w') \<Rightarrow>
           I w' \<and> (\<exists>es. trace w' = trace w @ es \<and> list_all Q es) \<and>
           (case res of Inl e \<Rightarrow> True | Inr r \<Rightarrow> R r)))"

text \<open>A statement satisfies \<open>emits m cs\<close> when the calls it makes are an initial part of
  \<open>cs\<close> on every run and all of \<open>cs\<close> on a run that returns.\<close>

definition emits :: "('r, 'v, 'a) prog \<Rightarrow> call list \<Rightarrow> bool" where
  "emits m cs =
     (\<forall>w. case m w of (res, w') \<Rightarrow>
        (\<exists>es. trace w' = trace w @ es \<and> prefix (map e_call es) cs \<and>
              (case res of Inl e \<Rightarrow> True | Inr r \<Rightarrow> map e_call es = cs)))"

text \<open>A small instance of the framework interface, on which the functions run on concrete
  inputs: a tensor's contents is an integer, every kernel adds its operands up, a view with
  batch size 0 fails, and a step of the optimiser adds one to every parameter.\<close>

definition toy :: "(int, nat) framework" where
  "toy =
     \<lparr>fw_kernel = (\<lambda>c g vs. if c = Call_view 0 then Inl (KernelError ''shape'') else Inr (sum_list vs)),
      fw_item = (\<lambda>v. Inr (PyInt v)),
      fw_int_tensor = sum_list,
      fw_zero_grad = (\<lambda>a. 0),
      fw_backward = (\<lambda>v a. Inr (Suc a)),
      fw_step = (\<lambda>p a. case p of (w1, b1, w2, b2) \<Rightarrow> ((w1 + 1, b1 + 1, w2 + 1, b2 + 1), a)),
      fw_adadelta = (\<lambda>lr p a. 0),
      fw_transform = (\<lambda>v. v),
      fw_collate = sum_list\<rparr>"

definition toy_world :: "bool \<Rightarrow> (int, nat) world" where
  "toy_world available =
     \<lparr>cuda_available = available, model = SimpleNet_init (\<lambda>shape. 0), optimizer = 0,
      grad_enabled = True, files = Map.empty, stdout = [], trace = []\<rparr>"

definition toy_loader :: "int loader" where
  "toy_loader =
     \<lparr>batches = [(\<lparr>tdev = ''cpu'', tval = 3\<rparr>, \<lparr>tdev = ''cpu'', tval = 1\<rparr>),
                 (\<lparr>tdev = ''cpu'', tval = 4\<rparr>, \<lparr>tdev = ''cpu'', tval = 0\<rparr>)],
      dataset_len = 2\<rparr>"

text \<open>Predicates used in the invariants: every operand of a recorded call is on the
  device \<open>d\<close>; the model of a state has all its parameters on \<open>d\<close>; no call of a statement
  is made with gradient recording enabled.\<close>

definition devs_on :: "torch_device \<Rightarrow> entry \<Rightarrow> bool" where
  "devs_on d e = (set (e_devs e) \<subseteq> {d})"

definition model_on :: "torch_device \<Rightarrow> ('v, 'a) world \<Rightarrow> bool" where
  "model_on d w = on_device d (model w)"

text \<open>The epoch numbers printed so far.\<close>

fun epoch_marks :: "out list \<Rightarrow> nat list" where
  "epoch_marks [] = []"
| "epoch_marks (Out_epoch n # xs) = n # epoch_marks xs"
| "epoch_marks (x # xs) = epoch_marks xs"


text \<open>A statement satisfies \<open>returns I m R\<close> when, run from a state where \<open>I\<close> holds, it
  returns a value that satisfies \<open>R\<close> and leaves a state where \<open>I\<close> holds.\<close>

definition returns ::
  "(('v, 'a) world \<Rightarrow> bool) \<Rightarrow> ('r, 'v, 'a) prog \<Rightarrow> ('r \<Rightarrow> bool) \<Rightarrow> bool" where
  "returns I m R =
     (\<forall>w. I w \<longrightarrow> (case m w of (res, w') \<Rightarrow> I w' \<and> (case res of Inl e \<Rightarrow> False | Inr r \<Rightarrow> R r)))"

text \<open>The output of a state extends \<open>s0\<close> by prints whose epoch numbers are \<open>ns\<close>.\<close>

definition marks_are :: "out list \<Rightarrow> nat list \<Rightarrow> ('v, 'a) world \<Rightarrow> bool" where
  "marks_are s0 ns w = (\<exists>os. stdout w = s0 @ os \<and> epoch_marks os = ns)"

text \<open>What the data directory holds after a download: the data set already there, or the
  public one.\<close>

definition stored_dataset ::
  "('v \<times> 'v) list \<times> ('v \<times> 'v) list \<Rightarrow> 'v artifact option \<Rightarrow> 'v artifact" where
  "stored_dataset remote a =
     (case a of Some (Dataset_dir tr te) \<Rightarrow> Dataset_dir tr te
      | _ \<Rightarrow> Dataset_dir (fst remote) (snd remote))"



section \<open>Rules for statements\<close>

lemma triple_returnE: "R x \<Longrightarrow> triple I Q (returnE x) R"
  by (simp add: triple_def returnE_def)

lemma triple_raiseE: "triple I Q (raiseE e) R"
  by (simp add: triple_def raiseE_def)

lemma triple_liftE: "(\<And>r. x = Inr r \<Longrightarrow> R r) \<Longrightarrow> triple I Q (liftE x) R"
  by (simp add: triple_def liftE_def split: sum.splits)

lemma triple_readW: "(\<And>w. I w \<Longrightarrow> R (f w)) \<Longrightarrow> triple I Q (readW f) R"
  by (simp add: triple_def readW_def)

lemma triple_modifyW:
  "(\<And>w. I w \<Longrightarrow> I (f w) \<and> trace (f w) = trace w) \<Longrightarrow> R () \<Longrightarrow> triple I Q (modifyW f) R"
  by (simp add: triple_def modifyW_def)

lemma triple_logE:
  "(\<And>w. I w \<Longrightarrow> Q \<lparr>e_call = c, e_grad = grad_enabled w, e_devs = ds\<rparr> \<and>
       I (w\<lparr>trace := trace w @ [\<lparr>e_call = c, e_grad = grad_enabled w, e_devs = ds\<rparr>]\<rparr>)) \<Longrightarrow>
   R () \<Longrightarrow> triple I Q (logE c ds) R"
  by (simp add: triple_def logE_def)

lemma triple_bindE:
  assumes "triple I Q m R" and "\<And>x. R x \<Longrightarrow> triple I Q (f x) S"
  shows "triple I Q (bindE m f) S"
  unfolding triple_def
proof (intro allI impI)
  fix w assume Iw: "I w"
  obtain res w1 where mw: "m w = (res, w1)" by (cases "m w")
  from assms(1) Iw mw obtain es1 where
    1: "I w1" "trace w1 = trace w @ es1" "list_all Q es1" "case res of Inl e \<Rightarrow> True | Inr r \<Rightarrow> R r"
    by (auto simp: triple_def)
  show "case bindE m f w of (res, w') \<Rightarrow> I w' \<and> (\<exists>es. trace w' = trace w @ es \<and> list_all Q es) \<and>
           (case res of Inl e \<Rightarrow> True | Inr r \<Rightarrow> S r)"
  proof (cases res)
    case (Inl e)
    with mw 1 show ?thesis by (simp add: bindE_def)
  next
    case (Inr x)
    with 1 have "R x" by simp
    from assms(2)[OF this] 1(1) obtain res2 w2 es2 where
      2: "f x w1 = (res2, w2)" "I w2" "trace w2 = trace w1 @ es2" "list_all Q es2"
         "case res2 of Inl e \<Rightarrow> True | Inr r \<Rightarrow> S r"
      by (cases "f x w1") (auto simp: triple_def)
    with mw Inr 1 show ?thesis by (simp add: bindE_def)
  qed
qed

lemma triple_foldE:
  assumes "\<And>x acc. x \<in> set xs \<Longrightarrow> R acc \<Longrightarrow> triple I Q (body x acc) R" and "R acc0"
  shows "triple I Q (foldE xs body acc0) R"
  using assms
proof (induction xs arbitrary: acc0)
  case Nil
  then show ?case by (simp add: triple_returnE)
next
  case (Cons x xs)
  have step: "triple I Q (body x acc0) R"
    by (rule Cons.prems(1)) (simp_all add: Cons.prems(2))
  have rest: "\<And>acc. R acc \<Longrightarrow> triple I Q (foldE xs body acc) R"
    by (rule Cons.IH) (simp_all add: Cons.prems(1))
  show ?case
    unfolding foldE.simps
    by (rule triple_bindE[where R=R]) (fact step, fact rest)
qed

lemma triple_bindE_any:
  assumes "triple I Q m (\<lambda>_. True)" and "\<And>x. triple I Q (f x) S"
  shows "triple I Q (bindE m f) S"
  by (rule triple_bindE[where R="\<lambda>_. True"]) (fact assms(1), rule assms(2))

lemma triple_returnE_any: "triple I Q (returnE x) (\<lambda>_. True)"
  by (simp add: triple_returnE)


lemma triple_weaken: "triple I Q m R \<Longrightarrow> (\<And>r. R r \<Longrightarrow> S r) \<Longrightarrow> triple I Q m S"
  by (auto simp: triple_def split: prod.splits sum.splits)

lemma triple_if: "(b \<Longrightarrow> triple I Q m R) \<Longrightarrow> (\<not> b \<Longrightarrow> triple I Q n R) \<Longrightarrow> triple I Q (if b then m else n) R"
  by simp

lemma emits_returnE: "emits (returnE x) []"
  by (simp add: emits_def returnE_def)

lemma emits_raiseE: "emits (raiseE e) cs"
  by (simp add: emits_def raiseE_def)

lemma emits_liftE: "emits (liftE x) []"
  by (simp add: emits_def liftE_def split: sum.splits)

lemma emits_readW: "emits (readW f) []"
  by (simp add: emits_def readW_def)

lemma emits_modifyW: "(\<And>w. trace (f w) = trace w) \<Longrightarrow> emits (modifyW f) []"
  by (simp add: emits_def modifyW_def)

lemma emits_logE: "emits (logE c ds) [c]"
  by (simp add: emits_def logE_def)

lemma emits_print: "emits (print x) []"
  by (simp add: print_def emits_modifyW)

lemma emitsE:
  assumes "emits m cs" and "m w = (res, w1)"
  obtains es where "trace w1 = trace w @ es" and "prefix (map e_call es) cs"
    and "case res of Inl e \<Rightarrow> True | Inr r \<Rightarrow> map e_call es = cs"
proof -
  from assms(1) have "case m w of (res, w') \<Rightarrow>
        (\<exists>es. trace w' = trace w @ es \<and> prefix (map e_call es) cs \<and>
              (case res of Inl e \<Rightarrow> True | Inr r \<Rightarrow> map e_call es = cs))"
    unfolding emits_def by (rule spec)
  with assms(2) that show thesis by auto
qed

lemma emits_bindE:
  assumes "emits m cs1" and "\<And>x. emits (f x) cs2"
  shows "emits (bindE m f) (cs1 @ cs2)"
  unfolding emits_def
proof (intro allI)
  fix w
  obtain res w1 where mw: "m w = (res, w1)" by (cases "m w")
  from assms(1) mw obtain es1 where
    1: "trace w1 = trace w @ es1" "prefix (map e_call es1) cs1"
       "case res of Inl e \<Rightarrow> True | Inr r \<Rightarrow> map e_call es1 = cs1"
    by (rule emitsE)
  show "case bindE m f w of (res, w') \<Rightarrow>
          \<exists>es. trace w' = trace w @ es \<and> prefix (map e_call es) (cs1 @ cs2) \<and>
               (case res of Inl e \<Rightarrow> True | Inr r \<Rightarrow> map e_call es = cs1 @ cs2)"
  proof (cases res)
    case (Inl e)
    with mw 1 show ?thesis by (auto simp: bindE_def prefix_def)
  next
    case (Inr x)
    obtain res2 w2 where fw: "f x w1 = (res2, w2)" by (cases "f x w1")
    from assms(2)[of x] fw obtain es2 where
      2: "trace w2 = trace w1 @ es2" "prefix (map e_call es2) cs2"
         "case res2 of Inl e \<Rightarrow> True | Inr r \<Rightarrow> map e_call es2 = cs2"
      by (rule emitsE)
    from Inr 1 have eq1: "map e_call es1 = cs1" by simp
    have "trace w2 = trace w @ (es1 @ es2)" using 1 2 by simp
    moreover have "prefix (map e_call (es1 @ es2)) (cs1 @ cs2)" using eq1 2 by simp
    moreover have "case res2 of Inl e \<Rightarrow> True | Inr r \<Rightarrow> map e_call (es1 @ es2) = cs1 @ cs2"
      using eq1 2 by (auto split: sum.splits)
    ultimately show ?thesis using mw Inr fw by (auto simp: bindE_def)
  qed
qed

lemma emits_bindE_eq:
  assumes "emits m cs1" and "\<And>x. emits (f x) cs2" and "cs = cs1 @ cs2"
  shows "emits (bindE m f) cs"
  using emits_bindE[OF assms(1,2)] assms(3) by simp

lemma emits_if: "emits m cs \<Longrightarrow> emits n cs \<Longrightarrow> emits (if b then m else n) cs"
  by simp

lemma emits_foldE:
  assumes "\<And>x acc. emits (body x acc) cs"
  shows "emits (foldE xs body acc) (concat (map (\<lambda>x. cs) xs))"
proof (induction xs arbitrary: acc)
  case Nil
  show ?case by (simp add: emits_returnE)
next
  case (Cons x xs)
  show ?case
    unfolding foldE.simps
    by (rule emits_bindE_eq[OF assms Cons.IH]) simp
qed

lemma emits_no_grad: "emits body cs \<Longrightarrow> emits (no_grad body) cs"
  by (fastforce simp: emits_def no_grad_def split: prod.splits)

lemma emits_require_device: "emits (require_device d) []"
  unfolding require_device_def
  by (intro emits_liftE emits_bindE_eq[where ?cs1.0="[]" and ?cs2.0="[]"] emits_readW) simp

lemma emits_tensor_op: "emits (tensor_op F c ts) [c]"
  unfolding tensor_op_def
  by (rule emits_bindE_eq[OF emits_logE, where ?cs2.0="[]"])
     (intro emits_if emits_raiseE emits_returnE emits_readW emits_liftE
        emits_bindE_eq[where ?cs1.0="[]" and ?cs2.0="[]"], simp_all)

lemma emits_Tensor_item: "emits (Tensor_item F t) [Call_item]"
  unfolding Tensor_item_def
  by (rule emits_bindE_eq[OF emits_logE emits_liftE]) simp

lemma emits_Tensor_to: "emits (Tensor_to d t) [Call_to d]"
  unfolding Tensor_to_def
  by (rule emits_bindE_eq[OF emits_logE, where ?cs2.0="[]"])
     (intro emits_require_device emits_returnE emits_bindE_eq[where ?cs1.0="[]" and ?cs2.0="[]"], simp_all)

lemma emits_Module_train: "emits Module_train [Call_train]"
  unfolding Module_train_def
  by (rule emits_bindE_eq[OF emits_logE, where ?cs2.0="[]"]) (rule emits_modifyW, simp_all)

lemma emits_Module_eval: "emits Module_eval [Call_eval]"
  unfolding Module_eval_def
  by (rule emits_bindE_eq[OF emits_logE, where ?cs2.0="[]"]) (rule emits_modifyW, simp_all)

lemma emits_Optimizer_zero_grad: "emits (Optimizer_zero_grad F) [Call_zero_grad]"
  unfolding Optimizer_zero_grad_def
  by (rule emits_bindE_eq[OF emits_readW, where ?cs2.0="[Call_zero_grad]"],
      rule emits_bindE_eq[OF emits_logE, where ?cs2.0="[]"], rule emits_modifyW, simp_all)

lemma emits_Tensor_backward: "emits (Tensor_backward F loss) [Call_backward]"
  unfolding Tensor_backward_def
  by (rule emits_bindE_eq[OF emits_logE, where ?cs2.0="[]"])
     (intro emits_readW emits_liftE emits_modifyW
        emits_bindE_eq[where ?cs1.0="[]" and ?cs2.0="[]"], simp_all)

lemma emits_Optimizer_step: "emits (Optimizer_step F) [Call_step]"
  unfolding Optimizer_step_def
  by (rule emits_bindE_eq[OF emits_readW, where ?cs2.0="[Call_step]"],
      rule emits_bindE_eq[OF emits_logE, where ?cs2.0="[]"], rule emits_modifyW)
     (simp_all split: prod.splits)

lemma emits_forward: "emits (forward F n x) (forward_calls n)"
  unfolding forward_def forward_calls_def
  apply (rule emits_bindE_eq[OF emits_tensor_op, where ?cs2.0="[Call_linear ''fc1'', Call_relu, Call_linear ''fc2'', Call_softmax 1]"])
   apply (rule emits_bindE_eq[OF emits_readW, where ?cs2.0="[Call_linear ''fc1'', Call_relu, Call_linear ''fc2'', Call_softmax 1]"])
    apply (rule emits_bindE_eq[OF emits_tensor_op, where ?cs2.0="[Call_relu, Call_linear ''fc2'', Call_softmax 1]"])
     apply (rule emits_bindE_eq[OF emits_tensor_op, where ?cs2.0="[Call_linear ''fc2'', Call_softmax 1]"])
      apply (rule emits_bindE_eq[OF emits_readW, where ?cs2.0="[Call_linear ''fc2'', Call_softmax 1]"])
       apply (rule emits_bindE_eq[OF emits_tensor_op, where ?cs2.0="[Call_softmax 1]"])
        apply (rule emits_bindE_eq[OF emits_tensor_op emits_returnE])
        apply simp_all
  done


lemma emits_F_nll_loss: "emits (F_nll_loss F r out tgt) [Call_nll_loss r]"
  unfolding F_nll_loss_def by (rule emits_tensor_op)

lemma emits_train_batch: "emits (train_batch F d n b u) (train_batch_calls d n)"
proof (cases b)
  case (Pair data target)
  show ?thesis
    unfolding Pair train_batch_def train_batch_calls_def prod.case
    apply (rule emits_bindE_eq[OF emits_Tensor_to, where ?cs2.0="[Call_to d, Call_zero_grad] @ forward_calls n @ [Call_nll_loss Reduce_mean, Call_backward, Call_step]"])
     apply (rule emits_bindE_eq[OF emits_Tensor_to, where ?cs2.0="[Call_zero_grad] @ forward_calls n @ [Call_nll_loss Reduce_mean, Call_backward, Call_step]"])
      apply (rule emits_bindE_eq[OF emits_Optimizer_zero_grad, where ?cs2.0="forward_calls n @ [Call_nll_loss Reduce_mean, Call_backward, Call_step]"])
       apply (rule emits_bindE_eq[OF emits_forward, where ?cs2.0="[Call_nll_loss Reduce_mean, Call_backward, Call_step]"])
        apply (rule emits_bindE_eq[OF emits_F_nll_loss, where ?cs2.0="[Call_backward, Call_step]"])
         apply (rule emits_bindE_eq[OF emits_Tensor_backward emits_Optimizer_step])
         apply simp_all
    done
qed

lemma emits_train: "emits (train F d n l epoch) (train_calls d n l)"
  unfolding train_def train_calls_def
  apply (rule emits_bindE_eq[OF emits_Module_train, where ?cs2.0="concat (map (\<lambda>b. train_batch_calls d n) (batches l))"])
   apply (rule emits_bindE_eq[OF emits_print emits_foldE])
    apply (rule emits_train_batch)
   apply simp_all
  done

lemma emits_test_batch: "emits (test_batch F d n b acc) (test_batch_calls d n)"
proof (cases b)
  case (Pair data target)
  obtain test_loss correct where acc: "acc = (test_loss, correct)" by (cases acc)
  show ?thesis
    unfolding Pair acc test_batch_def test_batch_calls_def prod.case
    apply (rule emits_bindE_eq[OF emits_Tensor_to, where ?cs2.0="[Call_to d] @ forward_calls n @ [Call_nll_loss Reduce_sum, Call_item, Call_argmax 1 True, Call_view_as, Call_eq, Call_sum, Call_item]"])
     apply (rule emits_bindE_eq[OF emits_Tensor_to, where ?cs2.0="forward_calls n @ [Call_nll_loss Reduce_sum, Call_item, Call_argmax 1 True, Call_view_as, Call_eq, Call_sum, Call_item]"])
      apply (rule emits_bindE_eq[OF emits_forward, where ?cs2.0="[Call_nll_loss Reduce_sum, Call_item, Call_argmax 1 True, Call_view_as, Call_eq, Call_sum, Call_item]"])
       apply (rule emits_bindE_eq[OF emits_F_nll_loss, where ?cs2.0="[Call_item, Call_argmax 1 True, Call_view_as, Call_eq, Call_sum, Call_item]"])
        apply (rule emits_bindE_eq[OF emits_Tensor_item, where ?cs2.0="[Call_argmax 1 True, Call_view_as, Call_eq, Call_sum, Call_item]"])
         apply (rule emits_bindE_eq[OF emits_tensor_op, where ?cs2.0="[Call_view_as, Call_eq, Call_sum, Call_item]"])
          apply (rule emits_bindE_eq[OF emits_tensor_op, where ?cs2.0="[Call_eq, Call_sum, Call_item]"])
           apply (rule emits_bindE_eq[OF emits_tensor_op, where ?cs2.0="[Call_sum, Call_item]"])
            apply (rule emits_bindE_eq[OF emits_tensor_op, where ?cs2.0="[Call_item]"])
             apply (rule emits_bindE_eq[OF emits_Tensor_item emits_returnE])
             apply simp_all
    done
qed

lemma emits_test: "emits (test F d n l) (test_calls d n l)"
  unfolding test_def test_calls_def
  apply (rule emits_bindE_eq[OF emits_Module_eval, where ?cs2.0="concat (map (\<lambda>b. test_batch_calls d n) (batches l))"])
   apply (rule emits_bindE_eq[where ?cs2.0="[]", OF emits_no_grad[OF emits_foldE]])
     apply (rule emits_test_batch)
    apply (simp only: split_def)
    apply (intro emits_bindE_eq[where ?cs1.0="[]" and ?cs2.0="[]"] emits_liftE emits_print)
     apply simp_all
  done

lemma emits_epoch_body:
  "emits (epoch_body F d trl tsl epoch u) (train_calls d batch_size_training trl @ test_calls d batch_size_training tsl)"
  unfolding epoch_body_def
  apply (rule emits_bindE_eq[OF emits_print, where ?cs2.0="train_calls d batch_size_training trl @ test_calls d batch_size_training tsl"])
   apply (rule emits_bindE[OF emits_train emits_test])
  apply simp
  done

lemma emits_epochs_cell:
  "emits (epochs_cell F d trl tsl)
     (concat (replicate 5 (train_calls d batch_size_training trl @ test_calls d batch_size_training tsl)))"
proof -
  have "emits (epochs_cell F d trl tsl)
     (concat (map (\<lambda>epoch. train_calls d batch_size_training trl @ test_calls d batch_size_training tsl) [1..<EPOCHS + 1]))"
    unfolding epochs_cell_def by (rule emits_foldE) (rule emits_epoch_body)
  moreover have "map (\<lambda>epoch. train_calls d batch_size_training trl @ test_calls d batch_size_training tsl) [1..<EPOCHS + 1]
     = replicate 5 (train_calls d batch_size_training trl @ test_calls d batch_size_training tsl)"
    by (simp add: EPOCHS_def map_replicate_const)
  ultimately show ?thesis by simp
qed

lemma new_entries_prefix:
  assumes "emits m cs"
  shows "prefix (map e_call (new_entries m w)) cs"
proof -
  obtain res w1 where mw: "m w = (res, w1)" by (cases "m w")
  from assms mw obtain es where "trace w1 = trace w @ es" "prefix (map e_call es) cs"
    by (rule emitsE)
  with mw show ?thesis by (simp add: new_entries_def)
qed

lemma new_entries_returned:
  assumes "emits m cs" and "fst (m w) = Inr r"
  shows "map e_call (new_entries m w) = cs"
proof -
  obtain res w1 where mw: "m w = (res, w1)" by (cases "m w")
  from assms(1) mw obtain es where "trace w1 = trace w @ es"
    "case res of Inl e \<Rightarrow> True | Inr r \<Rightarrow> map e_call es = cs"
    by (rule emitsE)
  with mw assms(2) show ?thesis by (simp add: new_entries_def)
qed

lemma tensor_op_run:
  "tensor_op F c ts w =
     (if \<not> same_device ts then Inl DeviceMismatch
      else case fw_kernel F c (grad_enabled w) (map tval ts) of
             Inl e \<Rightarrow> Inl e
           | Inr v \<Rightarrow> Inr \<lparr>tdev = tdev (hd ts), tval = v\<rparr>,
      w\<lparr>trace := trace w @ [\<lparr>e_call = c, e_grad = grad_enabled w, e_devs = map tdev ts\<rparr>]\<rparr>)"
  by (simp add: tensor_op_def bindE_def logE_def raiseE_def readW_def liftE_def returnE_def
      split: sum.splits)

lemma require_device_run: "require_device d w = (device_ok d (cuda_available w), w)"
  by (simp add: require_device_def bindE_def readW_def liftE_def split: sum.splits)

lemma Tensor_to_run:
  "Tensor_to d t w =
     (case device_ok d (cuda_available w) of Inl e \<Rightarrow> Inl e | Inr u \<Rightarrow> Inr (t\<lparr>tdev := d\<rparr>),
      w\<lparr>trace := trace w @ [\<lparr>e_call = Call_to d, e_grad = grad_enabled w, e_devs = []\<rparr>]\<rparr>)"
  by (simp add: Tensor_to_def bindE_def logE_def require_device_run returnE_def split: sum.splits)

lemma Module_to_run:
  "Module_to d m w =
     (case device_ok d (cuda_available w) of Inl e \<Rightarrow> Inl e | Inr u \<Rightarrow> Inr (move_parameters d m),
      w\<lparr>trace := trace w @ [\<lparr>e_call = Call_module_to d, e_grad = grad_enabled w, e_devs = []\<rparr>]\<rparr>)"
  by (simp add: Module_to_def bindE_def logE_def require_device_run returnE_def split: sum.splits)

lemma Tensor_item_run:
  "Tensor_item F t w =
     (fw_item F (tval t),
      w\<lparr>trace := trace w @ [\<lparr>e_call = Call_item, e_grad = grad_enabled w, e_devs = [tdev t]\<rparr>]\<rparr>)"
  by (simp add: Tensor_item_def bindE_def logE_def liftE_def split: sum.splits)

lemma Module_train_run:
  "Module_train w =
     (Inr (), w\<lparr>trace := trace w @ [\<lparr>e_call = Call_train, e_grad = grad_enabled w, e_devs = []\<rparr>],
               model := (model w)\<lparr>training := True\<rparr>\<rparr>)"
  by (simp add: Module_train_def bindE_def logE_def modifyW_def)

lemma Module_eval_run:
  "Module_eval w =
     (Inr (), w\<lparr>trace := trace w @ [\<lparr>e_call = Call_eval, e_grad = grad_enabled w, e_devs = []\<rparr>],
               model := (model w)\<lparr>training := False\<rparr>\<rparr>)"
  by (simp add: Module_eval_def bindE_def logE_def modifyW_def)

lemma Optimizer_zero_grad_run:
  "Optimizer_zero_grad F w =
     (Inr (), w\<lparr>trace := trace w @ [\<lparr>e_call = Call_zero_grad, e_grad = grad_enabled w,
                                      e_devs = map tdev (parameters (model w))\<rparr>],
               optimizer := fw_zero_grad F (optimizer w)\<rparr>)"
  by (simp add: Optimizer_zero_grad_def bindE_def logE_def modifyW_def readW_def)

lemma Tensor_backward_run:
  "Tensor_backward F loss w =
     (case fw_backward F (tval loss) (optimizer w) of
        Inl e \<Rightarrow> (Inl e, w\<lparr>trace := trace w @ [\<lparr>e_call = Call_backward, e_grad = grad_enabled w, e_devs = [tdev loss]\<rparr>]\<rparr>)
      | Inr a \<Rightarrow> (Inr (), w\<lparr>trace := trace w @ [\<lparr>e_call = Call_backward, e_grad = grad_enabled w, e_devs = [tdev loss]\<rparr>],
                           optimizer := a\<rparr>))"
  by (simp add: Tensor_backward_def bindE_def logE_def modifyW_def readW_def liftE_def split: sum.splits)

lemma Optimizer_step_run:
  "Optimizer_step F w =
     (Inr (), w\<lparr>trace := trace w @ [\<lparr>e_call = Call_step, e_grad = grad_enabled w,
                                      e_devs = map tdev (parameters (model w))\<rparr>],
               model := set_parameter_values (fst (fw_step F (parameter_values (model w)) (optimizer w))) (model w),
               optimizer := snd (fw_step F (parameter_values (model w)) (optimizer w))\<rparr>)"
  by (simp add: Optimizer_step_def bindE_def logE_def modifyW_def readW_def split: prod.splits)

lemma print_run: "print x w = (Inr (), w\<lparr>stdout := stdout w @ [x]\<rparr>)"
  by (simp add: print_def modifyW_def)


lemma on_device_set_parameter_values [simp]:
  "on_device d (set_parameter_values p m) = on_device d m"
  by (cases p) (simp add: on_device_def set_parameter_values_def parameters_def)

lemma on_device_training [simp]: "on_device d (m\<lparr>training := b\<rparr>) = on_device d m"
  by (simp add: on_device_def parameters_def)

lemma on_device_move [simp]: "on_device d (move_parameters d m)"
  by (simp add: on_device_def parameters_def move_parameters_def)

lemma on_tensor_op:
  assumes "list_all (\<lambda>t. tdev t = d) ts" and "ts \<noteq> []"
  shows "triple (model_on d) (devs_on d) (tensor_op F c ts) (\<lambda>r. tdev r = d)"
  using assms
  by (cases ts) (auto simp: triple_def tensor_op_run model_on_def devs_on_def list_all_iff split: sum.splits)

lemma on_Tensor_to: "triple (model_on d) (devs_on d) (Tensor_to d t) (\<lambda>r. tdev r = d)"
  by (simp add: triple_def Tensor_to_run model_on_def devs_on_def split: sum.splits)

lemma on_Tensor_item:
  "tdev t = d \<Longrightarrow> triple (model_on d) (devs_on d) (Tensor_item F t) (\<lambda>r. True)"
  by (simp add: triple_def Tensor_item_run model_on_def devs_on_def split: sum.splits)

lemma on_Module_train: "triple (model_on d) (devs_on d) Module_train (\<lambda>r. True)"
  by (simp add: triple_def Module_train_run model_on_def devs_on_def)

lemma on_Module_eval: "triple (model_on d) (devs_on d) Module_eval (\<lambda>r. True)"
  by (simp add: triple_def Module_eval_run model_on_def devs_on_def)

lemma on_Optimizer_zero_grad: "triple (model_on d) (devs_on d) (Optimizer_zero_grad F) (\<lambda>r. True)"
  by (auto simp: triple_def Optimizer_zero_grad_run model_on_def devs_on_def on_device_def list_all_iff)

lemma on_Tensor_backward:
  "tdev loss = d \<Longrightarrow> triple (model_on d) (devs_on d) (Tensor_backward F loss) (\<lambda>r. True)"
  by (simp add: triple_def Tensor_backward_run model_on_def devs_on_def split: sum.splits)

lemma on_device_devs: "on_device d m \<Longrightarrow> tdev ` set (parameters m) \<subseteq> {d}"
  by (auto simp: on_device_def list_all_iff)

lemma on_Optimizer_step: "triple (model_on d) (devs_on d) (Optimizer_step F) (\<lambda>r. True)"
  by (simp add: triple_def Optimizer_step_run model_on_def devs_on_def on_device_devs)

lemma on_print: "triple (model_on d) (devs_on d) (print x) (\<lambda>r. True)"
  by (simp add: triple_def print_run model_on_def)

lemma on_device_D:
  "on_device d m \<Longrightarrow> tdev (weight (fc1 m)) = d \<and> tdev (bias (fc1 m)) = d \<and>
     tdev (weight (fc2 m)) = d \<and> tdev (bias (fc2 m)) = d"
  by (simp add: on_device_def parameters_def)

lemma on_forward:
  assumes "tdev x = d"
  shows "triple (model_on d) (devs_on d) (forward F n x) (\<lambda>r. tdev r = d)"
  unfolding forward_def
  apply (rule triple_bindE[where R="\<lambda>r. tdev r = d"])
   apply (rule on_tensor_op, simp add: assms, simp)
  apply (rule triple_bindE[where R="\<lambda>l. tdev (weight l) = d \<and> tdev (bias l) = d"])
   apply (rule triple_readW, simp add: model_on_def on_device_D)
  apply (rule triple_bindE[where R="\<lambda>r. tdev r = d"])
   apply (rule on_tensor_op, simp, simp)
  apply (rule triple_bindE[where R="\<lambda>r. tdev r = d"])
   apply (rule on_tensor_op, simp, simp)
  apply (rule triple_bindE[where R="\<lambda>l. tdev (weight l) = d \<and> tdev (bias l) = d"])
   apply (rule triple_readW, simp add: model_on_def on_device_D)
  apply (rule triple_bindE[where R="\<lambda>r. tdev r = d"])
   apply (rule on_tensor_op, simp, simp)
  apply (rule triple_bindE[where R="\<lambda>r. tdev r = d"])
   apply (rule on_tensor_op, simp, simp)
  apply (rule triple_returnE, simp)
  done

lemma on_train_batch: "triple (model_on d) (devs_on d) (train_batch F d n b u) (\<lambda>r. True)"
proof (cases b)
  case (Pair data target)
  show ?thesis
    unfolding Pair train_batch_def prod.case F_nll_loss_def
    apply (rule triple_bindE[where R="\<lambda>r. tdev r = d"], rule on_Tensor_to)
    apply (rule triple_bindE[where R="\<lambda>r. tdev r = d"], rule on_Tensor_to)
    apply (rule triple_bindE_any, rule on_Optimizer_zero_grad)
    apply (rule triple_bindE[where R="\<lambda>r. tdev r = d"], rule on_forward, assumption)
    apply (rule triple_bindE[where R="\<lambda>r. tdev r = d"], rule on_tensor_op, simp, simp)
    apply (rule triple_bindE_any, rule on_Tensor_backward, assumption)
    apply (rule on_Optimizer_step)
    done
qed

lemma on_train: "triple (model_on d) (devs_on d) (train F d n l epoch) (\<lambda>r. True)"
  unfolding train_def
  by (intro triple_bindE_any on_Module_train on_print triple_foldE on_train_batch) simp

lemma on_test_batch: "triple (model_on d) (devs_on d) (test_batch F d n b acc) (\<lambda>r. True)"
proof (cases b)
  case (Pair data target)
  obtain test_loss correct where acc: "acc = (test_loss, correct)" by (cases acc)
  show ?thesis
    unfolding Pair acc test_batch_def prod.case F_nll_loss_def
    apply (rule triple_bindE[where R="\<lambda>r. tdev r = d"], rule on_Tensor_to)
    apply (rule triple_bindE[where R="\<lambda>r. tdev r = d"], rule on_Tensor_to)
    apply (rule triple_bindE[where R="\<lambda>r. tdev r = d"], rule on_forward, assumption)
    apply (rule triple_bindE[where R="\<lambda>r. tdev r = d"], rule on_tensor_op, simp, simp)
    apply (rule triple_bindE_any, rule on_Tensor_item, assumption)
    apply (rule triple_bindE[where R="\<lambda>r. tdev r = d"], rule on_tensor_op, simp, simp)
    apply (rule triple_bindE[where R="\<lambda>r. tdev r = d"], rule on_tensor_op, simp, simp)
    apply (rule triple_bindE[where R="\<lambda>r. tdev r = d"], rule on_tensor_op, simp, simp)
    apply (rule triple_bindE[where R="\<lambda>r. tdev r = d"], rule on_tensor_op, simp, simp)
    apply (rule triple_bindE_any, rule on_Tensor_item, assumption)
    apply (rule triple_returnE, simp)
    done
qed

lemma triple_no_grad:
  assumes "triple I Q body R"
    and "\<And>w g. I (w\<lparr>grad_enabled := g\<rparr>) = I w"
  shows "triple I Q (no_grad body) R"
  unfolding triple_def
proof (intro allI impI)
  fix w assume "I w"
  then have I0: "I (w\<lparr>grad_enabled := False\<rparr>)" by (simp add: assms(2))
  obtain res w1 where b: "body (w\<lparr>grad_enabled := False\<rparr>) = (res, w1)"
    by (cases "body (w\<lparr>grad_enabled := False\<rparr>)")
  from assms(1) I0 b obtain es where
    "I w1" "trace w1 = trace w @ es" "list_all Q es" "case res of Inl e \<Rightarrow> True | Inr r \<Rightarrow> R r"
    by (auto simp: triple_def)
  then show "case no_grad body w of (res, w') \<Rightarrow>
       I w' \<and> (\<exists>es. trace w' = trace w @ es \<and> list_all Q es) \<and>
       (case res of Inl e \<Rightarrow> True | Inr r \<Rightarrow> R r)"
    using b by (simp add: no_grad_def assms(2))
qed

lemma on_test: "triple (model_on d) (devs_on d) (test F d n l) (\<lambda>r. True)"
  unfolding test_def split_def
  by (intro triple_bindE_any on_Module_eval on_print triple_no_grad triple_foldE on_test_batch
        triple_liftE) (simp_all add: model_on_def)

lemma forward_fst:
  assumes "on_device (tdev x) (model w)"
  shows "fst (forward F n x w) =
     (case forward_value F (grad_enabled w) n (model w) (tval x) of
        Inl e \<Rightarrow> Inl e | Inr v \<Rightarrow> Inr \<lparr>tdev = tdev x, tval = v\<rparr>)"
  using assms
  by (simp add: forward_def forward_value_def then_kernel_def bindE_def tensor_op_run readW_def
      returnE_def on_device_def parameters_def same_device_def split: sum.splits)

lemma forward_frame:
  "snd (forward F n x w) = w\<lparr>trace := trace w @ new_entries (forward F n x) w\<rparr>"
  by (simp add: new_entries_def forward_def bindE_def tensor_op_run readW_def returnE_def
      split: sum.splits)

lemma forward_returns:
  assumes "forward F n x w = (Inr r, w')" and "on_device (tdev x) (model w)"
  shows "forward_value F (grad_enabled w) n (model w) (tval x) = Inr (tval r) \<and> tdev r = tdev x
         \<and> model w' = model w \<and> grad_enabled w' = grad_enabled w \<and> optimizer w' = optimizer w
         \<and> cuda_available w' = cuda_available w"
proof -
  from assms(1) have "fst (forward F n x w) = Inr r" by simp
  with forward_fst[OF assms(2), of F n] have
    "forward_value F (grad_enabled w) n (model w) (tval x) = Inr (tval r) \<and> tdev r = tdev x"
    by (auto split: sum.splits)
  moreover from assms(1) have "w' = snd (forward F n x w)" by simp
  then have "w' = w\<lparr>trace := trace w @ new_entries (forward F n x) w\<rparr>"
    by (simp only: forward_frame)
  then have "model w' = model w \<and> grad_enabled w' = grad_enabled w \<and> optimizer w' = optimizer w
         \<and> cuda_available w' = cuda_available w" by simp
  ultimately show ?thesis by simp
qed








lemma tripleD:
  assumes "triple I Q m R" and "I w"
  shows "I (snd (m w))"
proof -
  obtain res w1 where mw: "m w = (res, w1)" by (cases "m w")
  with assms show ?thesis by (auto simp: triple_def)
qed



lemma move_parameters_idem [simp]: "move_parameters d (move_parameters d m) = move_parameters d m"
  by (simp add: move_parameters_def)

lemma parameter_values_move [simp]: "parameter_values (move_parameters d m) = parameter_values m"
  by (simp add: move_parameters_def parameter_values_def)







lemma triple_weakenQ: "triple I Q m R \<Longrightarrow> (\<And>e. Q e \<Longrightarrow> Q' e) \<Longrightarrow> triple I Q' m R"
  unfolding triple_def
  by (auto split: prod.splits simp: list_all_iff) blast

lemma tripleE:
  assumes "triple I Q m R" and "I w" and "m w = (res, w1)"
  obtains es where "I w1" and "trace w1 = trace w @ es" and "list_all Q es"
    and "case res of Inl e \<Rightarrow> True | Inr r \<Rightarrow> R r"
proof -
  from assms(1) have "I w \<longrightarrow> (case m w of (res, w') \<Rightarrow>
           I w' \<and> (\<exists>es. trace w' = trace w @ es \<and> list_all Q es) \<and>
           (case res of Inl e \<Rightarrow> True | Inr r \<Rightarrow> R r))"
    unfolding triple_def by (rule spec)
  with assms(2,3) that show thesis by auto
qed

lemma triple_new_entries:
  assumes "triple I Q m R" and "I w"
  shows "list_all Q (new_entries m w)"
proof -
  obtain res w1 where mw: "m w = (res, w1)" by (cases "m w")
  with assms show ?thesis by (auto simp: triple_def new_entries_def)
qed

lemma ng_tensor_op:
  "triple (\<lambda>w. \<not> grad_enabled w) (\<lambda>e. \<not> e_grad e) (tensor_op F c ts) (\<lambda>r. True)"
  by (simp add: triple_def tensor_op_run)

lemma ng_Tensor_to:
  "triple (\<lambda>w. \<not> grad_enabled w) (\<lambda>e. \<not> e_grad e) (Tensor_to d t) (\<lambda>r. True)"
  by (simp add: triple_def Tensor_to_run)

lemma ng_Tensor_item:
  "triple (\<lambda>w. \<not> grad_enabled w) (\<lambda>e. \<not> e_grad e) (Tensor_item F t) (\<lambda>r. True)"
  by (simp add: triple_def Tensor_item_run)

lemma ng_forward:
  "triple (\<lambda>w. \<not> grad_enabled w) (\<lambda>e. \<not> e_grad e) (forward F n x) (\<lambda>r. True)"
  unfolding forward_def
  by (intro triple_bindE_any ng_tensor_op triple_readW triple_returnE) simp_all

lemma ng_test_batch:
  "triple (\<lambda>w. \<not> grad_enabled w) (\<lambda>e. \<not> e_grad e) (test_batch F d n b acc) (\<lambda>r. True)"
  unfolding test_batch_def split_def F_nll_loss_def
  by (intro triple_bindE_any ng_tensor_op ng_Tensor_to ng_Tensor_item ng_forward triple_returnE) simp

lemma triple_enter_no_grad:
  assumes "triple (\<lambda>w. \<not> grad_enabled w) Q body R"
  shows "triple (\<lambda>w. True) Q (no_grad body) R"
  unfolding triple_def
proof (intro allI impI)
  fix w :: "('a, 'b) world"
  obtain res w1 where b: "body (w\<lparr>grad_enabled := False\<rparr>) = (res, w1)"
    by (cases "body (w\<lparr>grad_enabled := False\<rparr>)")
  have "\<not> grad_enabled (w\<lparr>grad_enabled := False\<rparr>)" by simp
  from tripleE[OF assms this b] obtain es where
    "trace w1 = trace w @ es" "list_all Q es" "case res of Inl e \<Rightarrow> True | Inr r \<Rightarrow> R r"
    by auto
  then show "case no_grad body w of (res, w') \<Rightarrow>
       True \<and> (\<exists>es. trace w' = trace w @ es \<and> list_all Q es) \<and>
       (case res of Inl e \<Rightarrow> True | Inr r \<Rightarrow> R r)"
    using b by (simp add: no_grad_def)
qed

lemma ng_test:
  "triple (\<lambda>w. True) (\<lambda>e. e_grad e \<longrightarrow> e_call e = Call_eval) (test F d n l) (\<lambda>r. True)"
  unfolding test_def split_def
  apply (rule triple_bindE_any)
   apply (simp add: triple_def Module_eval_run)
  apply (rule triple_bindE_any)
   apply (rule triple_weakenQ[where Q="\<lambda>e. \<not> e_grad e"])
    apply (rule triple_enter_no_grad)
    apply (rule triple_foldE)
     apply (rule ng_test_batch)
    apply simp
   apply simp
  apply (intro triple_bindE_any triple_liftE)
    apply simp_all
  apply (simp add: triple_def print_run)
  done

lemma no_grad_restores: "grad_enabled (snd (no_grad body w)) = grad_enabled w"
  by (simp add: no_grad_def split: prod.splits)

lemma forward_returns_on:
  assumes "forward F n x w = (Inr r, w')"
  shows "on_device (tdev x) (model w)"
  using assms
  by (auto simp: forward_def bindE_def tensor_op_run readW_def returnE_def on_device_def
      parameters_def same_device_def split: sum.splits if_splits)


lemma bindE_InrD:
  assumes "bindE m f w = (Inr r, w')"
  obtains x w1 where "m w = (Inr x, w1)" and "f x w1 = (Inr r, w')"
  using assms by (auto simp: bindE_def split: prod.splits sum.splits)

lemma parameter_values_set [simp]: "parameter_values (set_parameter_values p m) = p"
  by (cases p) (simp add: parameter_values_def set_parameter_values_def)

lemma train_batch_returns:
  assumes run: "train_batch F d n (data, target) u w = (Inr r, w')"
  shows "\<exists>out loss a.
      forward_value F (grad_enabled w) n (model w) (tval data) = Inr out
      \<and> fw_kernel F (Call_nll_loss Reduce_mean) (grad_enabled w) [out, tval target] = Inr loss
      \<and> fw_backward F loss (fw_zero_grad F (optimizer w)) = Inr a
      \<and> (parameter_values (model w'), optimizer w') = fw_step F (parameter_values (model w)) a"
proof -
  from run obtain x1 w1 where s1: "Tensor_to d data w = (Inr x1, w1)"
    and r1: "bindE (Tensor_to d target) (\<lambda>target.
        bindE (Optimizer_zero_grad F) (\<lambda>_.
        bindE (forward F n x1) (\<lambda>output.
        bindE (F_nll_loss F Reduce_mean output target) (\<lambda>loss.
        bindE (Tensor_backward F loss) (\<lambda>_.
        Optimizer_step F))))) w1 = (Inr r, w')"
    unfolding train_batch_def prod.case by (rule bindE_InrD)
  from s1 have x1: "x1 = data\<lparr>tdev := d\<rparr>"
    and w1: "model w1 = model w" "optimizer w1 = optimizer w" "grad_enabled w1 = grad_enabled w"
    by (auto simp: Tensor_to_run split: sum.splits)
  from r1 obtain t1 w2 where s2: "Tensor_to d target w1 = (Inr t1, w2)"
    and r2: "bindE (Optimizer_zero_grad F) (\<lambda>_.
        bindE (forward F n x1) (\<lambda>output.
        bindE (F_nll_loss F Reduce_mean output t1) (\<lambda>loss.
        bindE (Tensor_backward F loss) (\<lambda>_.
        Optimizer_step F)))) w2 = (Inr r, w')"
    by (rule bindE_InrD)
  from s2 w1 have t1: "t1 = target\<lparr>tdev := d\<rparr>"
    and w2: "model w2 = model w" "optimizer w2 = optimizer w" "grad_enabled w2 = grad_enabled w"
    by (auto simp: Tensor_to_run split: sum.splits)
  from r2 obtain u3 w3 where s3: "Optimizer_zero_grad F w2 = (Inr u3, w3)"
    and r3: "bindE (forward F n x1) (\<lambda>output.
        bindE (F_nll_loss F Reduce_mean output t1) (\<lambda>loss.
        bindE (Tensor_backward F loss) (\<lambda>_.
        Optimizer_step F))) w3 = (Inr r, w')"
    by (rule bindE_InrD)
  from s3 w2 have w3: "model w3 = model w" "optimizer w3 = fw_zero_grad F (optimizer w)"
      "grad_enabled w3 = grad_enabled w"
    by (auto simp: Optimizer_zero_grad_run)
  from r3 obtain out w4 where s4: "forward F n x1 w3 = (Inr out, w4)"
    and r4: "bindE (F_nll_loss F Reduce_mean out t1) (\<lambda>loss.
        bindE (Tensor_backward F loss) (\<lambda>_.
        Optimizer_step F)) w4 = (Inr r, w')"
    by (rule bindE_InrD)
  from forward_returns[OF s4 forward_returns_on[OF s4]] x1 w3
  have fv: "forward_value F (grad_enabled w) n (model w) (tval data) = Inr (tval out)"
    and out: "tdev out = d"
    and w4: "model w4 = model w" "optimizer w4 = fw_zero_grad F (optimizer w)"
      "grad_enabled w4 = grad_enabled w"
    by simp_all
  from r4 obtain loss w5 where s5: "F_nll_loss F Reduce_mean out t1 w4 = (Inr loss, w5)"
    and r5: "bindE (Tensor_backward F loss) (\<lambda>_. Optimizer_step F) w5 = (Inr r, w')"
    by (rule bindE_InrD)
  from s5 w4 t1 have nl: "fw_kernel F (Call_nll_loss Reduce_mean) (grad_enabled w) [tval out, tval target]
        = Inr (tval loss)"
    and w5: "model w5 = model w" "optimizer w5 = fw_zero_grad F (optimizer w)"
    by (auto simp: F_nll_loss_def tensor_op_run split: sum.splits if_splits)
  from r5 obtain u6 w6 where s6: "Tensor_backward F loss w5 = (Inr u6, w6)"
    and s7: "Optimizer_step F w6 = (Inr r, w')"
    by (rule bindE_InrD)
  from s6 w5 have bw: "fw_backward F (tval loss) (fw_zero_grad F (optimizer w)) = Inr (optimizer w6)"
    and w6: "model w6 = model w"
    by (auto simp: Tensor_backward_run split: sum.splits)
  from s7 w6 have "(parameter_values (model w'), optimizer w')
      = fw_step F (parameter_values (model w)) (optimizer w6)"
    by (auto simp: Optimizer_step_run)
  with fv nl bw show ?thesis by blast
qed


lemma test_restores_grad: "grad_enabled (snd (test F d n l w)) = grad_enabled w"
proof -
  let ?w1 = "snd (Module_eval w)"
  let ?loop = "no_grad (foldE (batches l) (test_batch F d n) (PyInt 0, PyInt 0))"
  have g1: "grad_enabled ?w1 = grad_enabled w" by (simp add: Module_eval_run)
  have g2: "grad_enabled (snd (?loop ?w1)) = grad_enabled ?w1" by (rule no_grad_restores)
  obtain res w2 where l: "?loop ?w1 = (res, w2)" by (cases "?loop ?w1")
  with g1 g2 have "grad_enabled w2 = grad_enabled w" by simp
  with l show ?thesis
    by (simp add: test_def bindE_def Module_eval_run liftE_def print_run split: sum.splits prod.splits)
qed

lemma returnsE:
  assumes "returns I m R" and "I w"
  obtains r w1 where "m w = (Inr r, w1)" and "I w1" and "R r"
proof -
  from assms(1) have "I w \<longrightarrow> (case m w of (res, w') \<Rightarrow> I w' \<and> (case res of Inl e \<Rightarrow> False | Inr r \<Rightarrow> R r))"
    unfolding returns_def by (rule spec)
  with assms(2) that show thesis by (cases "m w") (auto split: sum.splits)
qed

lemma returns_returnE: "R x \<Longrightarrow> returns I (returnE x) R"
  by (simp add: returns_def returnE_def)

lemma returns_readW: "(\<And>w. I w \<Longrightarrow> R (f w)) \<Longrightarrow> returns I (readW f) R"
  by (simp add: returns_def readW_def)

lemma returns_liftE: "x = Inr r \<Longrightarrow> R r \<Longrightarrow> returns I (liftE x) R"
  by (simp add: returns_def liftE_def)

lemma returns_bindE:
  assumes "returns I m R" and "\<And>x. R x \<Longrightarrow> returns I (f x) S"
  shows "returns I (bindE m f) S"
  unfolding returns_def
proof (intro allI impI)
  fix w assume "I w"
  from returnsE[OF assms(1) this] obtain r w1 where m: "m w = (Inr r, w1)" "I w1" "R r" by blast
  from returnsE[OF assms(2)[OF m(3)] m(2)] obtain s w2 where f: "f r w1 = (Inr s, w2)" "I w2" "S s"
    by blast
  from m f show "case bindE m f w of (res, w') \<Rightarrow> I w' \<and> (case res of Inl e \<Rightarrow> False | Inr r \<Rightarrow> S r)"
    by (simp add: bindE_def)
qed

lemma returns_bindE_any:
  assumes "returns I m (\<lambda>_. True)" and "\<And>x. returns I (f x) S"
  shows "returns I (bindE m f) S"
  by (rule returns_bindE[where R="\<lambda>_. True"]) (fact assms(1), rule assms(2))

lemma returns_foldE:
  assumes "\<And>x acc. R acc \<Longrightarrow> returns I (body x acc) R" and "R acc0"
  shows "returns I (foldE xs body acc0) R"
  using assms(2)
proof (induction xs arbitrary: acc0)
  case Nil
  then show ?case by (simp add: returns_returnE)
next
  case (Cons x xs)
  show ?case
    unfolding foldE.simps
    by (rule returns_bindE[where R=R]) (rule assms(1)[OF Cons.prems], rule Cons.IH)
qed

lemma returns_no_grad:
  assumes "returns I body R" and "\<And>w g. I (w\<lparr>grad_enabled := g\<rparr>) = I w"
  shows "returns I (no_grad body) R"
  unfolding returns_def
proof (intro allI impI)
  fix w assume "I w"
  then have "I (w\<lparr>grad_enabled := False\<rparr>)" by (simp add: assms(2))
  from returnsE[OF assms(1) this] obtain r w1 where
    "body (w\<lparr>grad_enabled := False\<rparr>) = (Inr r, w1)" "I w1" "R r" by blast
  then show "case no_grad body w of (res, w') \<Rightarrow> I w' \<and> (case res of Inl e \<Rightarrow> False | Inr r \<Rightarrow> R r)"
    by (simp add: no_grad_def assms(2))
qed

lemma returns_weaken: "returns I m R \<Longrightarrow> (\<And>r. R r \<Longrightarrow> S r) \<Longrightarrow> returns I m S"
  by (auto simp: returns_def split: prod.splits sum.splits)

lemma returns_fst:
  assumes "returns I m R" and "I w"
  shows "\<exists>r. fst (m w) = Inr r \<and> R r"
  using returnsE[OF assms] by fastforce

subsection \<open>Runs on the small instance\<close>

lemma toy_kernel: "c \<noteq> Call_view 0 \<Longrightarrow> fw_kernel toy c g vs = Inr (sum_list vs)"
  by (simp add: toy_def)

lemma toy_tensor_op:
  assumes "list_all (\<lambda>t. tdev t = d) ts" and "ts \<noteq> []" and "c \<noteq> Call_view 0"
  shows "returns (model_on d) (tensor_op toy c ts) (\<lambda>r. tdev r = d)"
  using assms
  by (cases ts) (auto simp: returns_def tensor_op_run model_on_def toy_kernel same_device_def list_all_iff)

lemma toy_Tensor_to: "returns (model_on ''cpu'') (Tensor_to ''cpu'' t) (\<lambda>r. tdev r = ''cpu'')"
  by (simp add: returns_def Tensor_to_run device_ok_def model_on_def)

lemma toy_Tensor_item: "returns (model_on d) (Tensor_item toy t) (\<lambda>r. True)"
  by (simp add: returns_def Tensor_item_run model_on_def toy_def)

lemma toy_Module_train: "returns (model_on d) Module_train (\<lambda>r. True)"
  by (simp add: returns_def Module_train_run model_on_def)

lemma toy_Module_eval: "returns (model_on d) Module_eval (\<lambda>r. True)"
  by (simp add: returns_def Module_eval_run model_on_def)

lemma toy_zero_grad: "returns (model_on d) (Optimizer_zero_grad toy) (\<lambda>r. True)"
  by (simp add: returns_def Optimizer_zero_grad_run model_on_def)

lemma toy_backward: "returns (model_on d) (Tensor_backward toy loss) (\<lambda>r. True)"
  by (simp add: returns_def Tensor_backward_run model_on_def toy_def)

lemma toy_step: "returns (model_on d) (Optimizer_step toy) (\<lambda>r. True)"
  by (simp add: returns_def Optimizer_step_run model_on_def)

lemma toy_print: "returns (model_on d) (print x) (\<lambda>r. True)"
  by (simp add: returns_def print_run model_on_def)

lemma toy_forward_returns:
  assumes "tdev x = d" and "n \<noteq> 0"
  shows "returns (model_on d) (forward toy n x) (\<lambda>r. tdev r = d)"
  unfolding forward_def
  apply (rule returns_bindE[where R="\<lambda>r. tdev r = d"])
   apply (rule toy_tensor_op, simp add: assms, simp, simp add: assms)
  apply (rule returns_bindE[where R="\<lambda>l. tdev (weight l) = d \<and> tdev (bias l) = d"])
   apply (rule returns_readW, simp add: model_on_def on_device_D)
  apply (rule returns_bindE[where R="\<lambda>r. tdev r = d"])
   apply (rule toy_tensor_op, simp, simp, simp)
  apply (rule returns_bindE[where R="\<lambda>r. tdev r = d"])
   apply (rule toy_tensor_op, simp, simp, simp)
  apply (rule returns_bindE[where R="\<lambda>l. tdev (weight l) = d \<and> tdev (bias l) = d"])
   apply (rule returns_readW, simp add: model_on_def on_device_D)
  apply (rule returns_bindE[where R="\<lambda>r. tdev r = d"])
   apply (rule toy_tensor_op, simp, simp, simp)
  apply (rule returns_bindE[where R="\<lambda>r. tdev r = d"])
   apply (rule toy_tensor_op, simp, simp, simp)
  apply (rule returns_returnE, simp)
  done

lemma toy_train_batch_returns:
  assumes "n \<noteq> 0"
  shows "returns (model_on ''cpu'') (train_batch toy ''cpu'' n b u) (\<lambda>r. True)"
proof (cases b)
  case (Pair data target)
  show ?thesis
    unfolding Pair train_batch_def prod.case F_nll_loss_def
    apply (rule returns_bindE[where R="\<lambda>r. tdev r = ''cpu''"], rule toy_Tensor_to)
    apply (rule returns_bindE[where R="\<lambda>r. tdev r = ''cpu''"], rule toy_Tensor_to)
    apply (rule returns_bindE_any, rule toy_zero_grad)
    apply (rule returns_bindE[where R="\<lambda>r. tdev r = ''cpu''"], rule toy_forward_returns, assumption, rule assms)
    apply (rule returns_bindE[where R="\<lambda>r. tdev r = ''cpu''"], rule toy_tensor_op, simp, simp, simp)
    apply (rule returns_bindE_any, rule toy_backward)
    apply (rule toy_step)
    done
qed

lemma toy_train_returns:
  assumes "n \<noteq> 0"
  shows "returns (model_on ''cpu'') (train toy ''cpu'' n l epoch) (\<lambda>r. True)"
  unfolding train_def
  by (intro returns_bindE_any toy_Module_train toy_print returns_foldE toy_train_batch_returns assms) simp

lemma toy_test_batch_returns:
  assumes "n \<noteq> 0"
  shows "returns (model_on ''cpu'') (test_batch toy ''cpu'' n b acc) (\<lambda>r. True)"
proof (cases b)
  case (Pair data target)
  obtain test_loss correct where acc: "acc = (test_loss, correct)" by (cases acc)
  show ?thesis
    unfolding Pair acc test_batch_def prod.case F_nll_loss_def
    apply (rule returns_bindE[where R="\<lambda>r. tdev r = ''cpu''"], rule toy_Tensor_to)
    apply (rule returns_bindE[where R="\<lambda>r. tdev r = ''cpu''"], rule toy_Tensor_to)
    apply (rule returns_bindE[where R="\<lambda>r. tdev r = ''cpu''"], rule toy_forward_returns, assumption, rule assms)
    apply (rule returns_bindE[where R="\<lambda>r. tdev r = ''cpu''"], rule toy_tensor_op, simp, simp, simp)
    apply (rule returns_bindE_any, rule toy_Tensor_item)
    apply (rule returns_bindE[where R="\<lambda>r. tdev r = ''cpu''"], rule toy_tensor_op, simp, simp, simp)
    apply (rule returns_bindE[where R="\<lambda>r. tdev r = ''cpu''"], rule toy_tensor_op, simp, simp, simp)
    apply (rule returns_bindE[where R="\<lambda>r. tdev r = ''cpu''"], rule toy_tensor_op, simp, simp, simp)
    apply (rule returns_bindE[where R="\<lambda>r. tdev r = ''cpu''"], rule toy_tensor_op, simp, simp, simp)
    apply (rule returns_bindE_any, rule toy_Tensor_item)
    apply (rule returns_returnE, simp)
    done
qed

lemma py_truediv_returns: "to_real y \<noteq> 0 \<Longrightarrow> py_truediv x y = Inr (PyFloat (to_real x / to_real y))"
  by (simp add: py_truediv_def)

lemma toy_test_returns:
  assumes "n \<noteq> 0" and "dataset_len l \<noteq> 0"
  shows "returns (model_on ''cpu'') (test toy ''cpu'' n l) (\<lambda>r. True)"
  unfolding test_def split_def
  apply (rule returns_bindE_any, rule toy_Module_eval)
  apply (rule returns_bindE_any)
   apply (rule returns_no_grad)
    apply (rule returns_foldE[where R="\<lambda>_. True"])
     apply (rule toy_test_batch_returns, rule assms, simp)
   apply (simp add: model_on_def)
  apply (rule returns_bindE_any)
   apply (rule returns_liftE, rule py_truediv_returns, simp add: assms, simp)
  apply (rule returns_bindE_any)
   apply (rule returns_liftE, rule py_truediv_returns, simp add: assms, simp)
  apply (rule toy_print)
  done

lemma toy_epochs_returns:
  assumes "dataset_len tsl \<noteq> 0"
  shows "returns (model_on ''cpu'') (epochs_cell toy ''cpu'' trl tsl) (\<lambda>r. True)"
  unfolding epochs_cell_def epoch_body_def
  by (intro returns_foldE returns_bindE_any toy_print toy_train_returns toy_test_returns assms)
     (simp_all add: batch_size_training_def)

lemma toy_world_on_cpu: "model_on ''cpu'' (toy_world a)"
  by (simp add: model_on_def on_device_def parameters_def toy_world_def SimpleNet_init_def nn_Linear_def)


lemma length_concat_replicate: "length (concat (replicate k xs)) = k * length xs"
  by (induction k) simp_all

lemma on_epochs_cell: "triple (model_on d) (devs_on d) (epochs_cell F d trl tsl) (\<lambda>r. True)"
  unfolding epochs_cell_def epoch_body_def
  by (intro triple_foldE triple_bindE_any on_print on_train on_test) simp

lemma model_cell_on:
  assumes "fst (model_cell rnd d w) = Inr ()"
  shows "on_device d (model (snd (model_cell rnd d w)))"
  using assms
  by (simp add: model_cell_def bindE_def Module_to_run modifyW_def split: sum.splits)


lemma marks_are_trace [simp]: "marks_are s0 ns (w\<lparr>trace := t\<rparr>) = marks_are s0 ns w"
  by (simp add: marks_are_def)

lemma marks_are_model [simp]: "marks_are s0 ns (w\<lparr>model := m\<rparr>) = marks_are s0 ns w"
  by (simp add: marks_are_def)

lemma marks_are_optimizer [simp]: "marks_are s0 ns (w\<lparr>optimizer := a\<rparr>) = marks_are s0 ns w"
  by (simp add: marks_are_def)

lemma marks_are_grad [simp]: "marks_are s0 ns (w\<lparr>grad_enabled := g\<rparr>) = marks_are s0 ns w"
  by (simp add: marks_are_def)






























lemma forward_value_training [simp]:
  "forward_value F g n (m\<lparr>training := b\<rparr>) v = forward_value F g n m v"
  by (simp add: forward_value_def)

lemma forward_value_move [simp]:
  "forward_value F g n (move_parameters d m) v = forward_value F g n m v"
  by (simp add: forward_value_def move_parameters_def)



subsection \<open>Files\<close>

lemma FashionMNIST_download_run:
  "FashionMNIST F remote dir is_train True w =
     (case stored_dataset remote (files w dir) of
        Dataset_dir tr te \<Rightarrow> Inr (map (\<lambda>(img, label). (fw_transform F img, label)) (if is_train then tr else te))
      | Weights sd \<Rightarrow> Inl (DatasetNotFound dir),
      w\<lparr>trace := trace w @ [\<lparr>e_call = Call_dataset dir is_train True, e_grad = grad_enabled w, e_devs = []\<rparr>],
        files := (files w)(dir \<mapsto> stored_dataset remote (files w dir))\<rparr>)"
  by (auto simp: FashionMNIST_def stored_dataset_def bindE_def logE_def modifyW_def readW_def
      returnE_def raiseE_def fun_upd_idem split: option.splits artifact.splits)

lemma FashionMNIST_read_run:
  "FashionMNIST F remote dir is_train False w =
     (case files w dir of
        Some (Dataset_dir tr te) \<Rightarrow>
          Inr (map (\<lambda>(img, label). (fw_transform F img, label)) (if is_train then tr else te))
      | _ \<Rightarrow> Inl (DatasetNotFound dir),
      w\<lparr>trace := trace w @ [\<lparr>e_call = Call_dataset dir is_train False, e_grad = grad_enabled w, e_devs = []\<rparr>]\<rparr>)"
  by (simp add: FashionMNIST_def bindE_def logE_def readW_def returnE_def raiseE_def
      split: option.splits artifact.splits)

lemma DataLoader_run:
  "DataLoader F samples n w =
     (if n = 0 then Inl InvalidBatchSize
      else Inr \<lparr>batches = map (collate_batch F) (chunks n samples), dataset_len = length samples\<rparr>,
      w\<lparr>trace := trace w @ [\<lparr>e_call = Call_dataloader n, e_grad = grad_enabled w, e_devs = []\<rparr>]\<rparr>)"
  by (simp add: DataLoader_def bindE_def logE_def returnE_def raiseE_def)

lemma stored_dataset_is_dir:
  "\<exists>tr te. stored_dataset remote a = Dataset_dir tr te"
  by (simp add: stored_dataset_def split: option.splits artifact.splits)

lemma data_cell_run:
  shows data_cell_returns: "\<exists>loaders. fst (data_cell F remote w) = Inr loaders
     \<and> (\<exists>tr te. stored_dataset remote (files w ''./data'') = Dataset_dir tr te
           \<and> dataset_len (snd loaders) = length te)"
  and data_cell_files: "files (snd (data_cell F remote w)) = (files w)(''./data'' \<mapsto> stored_dataset remote (files w ''./data''))"
  and data_cell_cuda: "cuda_available (snd (data_cell F remote w)) = cuda_available w"
  and data_cell_model: "model (snd (data_cell F remote w)) = model w"
proof -
  obtain tr te where s: "stored_dataset remote (files w ''./data'') = Dataset_dir tr te"
    using stored_dataset_is_dir by blast
  have run: "data_cell F remote w =
    (Inr (\<lparr>batches = map (collate_batch F) (chunks batch_size_training
               (map (\<lambda>(img, label). (fw_transform F img, label)) tr)), dataset_len = length tr\<rparr>,
          \<lparr>batches = map (collate_batch F) (chunks batch_size_training
               (map (\<lambda>(img, label). (fw_transform F img, label)) te)), dataset_len = length te\<rparr>),
     snd (data_cell F remote w))"
    by (simp add: data_cell_def bindE_def FashionMNIST_download_run FashionMNIST_read_run DataLoader_run
        returnE_def s batch_size_training_def prod_eq_iff)
  show "\<exists>loaders. fst (data_cell F remote w) = Inr loaders
     \<and> (\<exists>tr te. stored_dataset remote (files w ''./data'') = Dataset_dir tr te
           \<and> dataset_len (snd loaders) = length te)"
    using s by (subst run) simp
  show "files (snd (data_cell F remote w)) = (files w)(''./data'' \<mapsto> stored_dataset remote (files w ''./data''))"
    by (simp add: data_cell_def bindE_def FashionMNIST_download_run FashionMNIST_read_run DataLoader_run
        returnE_def s batch_size_training_def)
  show "cuda_available (snd (data_cell F remote w)) = cuda_available w"
    by (simp add: data_cell_def bindE_def FashionMNIST_download_run FashionMNIST_read_run DataLoader_run
        returnE_def s batch_size_training_def)
  show "model (snd (data_cell F remote w)) = model w"
    by (simp add: data_cell_def bindE_def FashionMNIST_download_run FashionMNIST_read_run DataLoader_run
        returnE_def s batch_size_training_def)
qed





lemma device_ok_device [simp]: "device_ok (device a) a = Inr ()"
  by (simp add: device_ok_def device_def)








lemma parameter_values_training [simp]: "parameter_values (m\<lparr>training := b\<rparr>) = parameter_values m"
  by (simp add: parameter_values_def)




























section \<open>Device selection\<close>

text \<open>
  Claim C2. The device is chosen by one conditional on the accelerator check: it is
  \<^verbatim>\<open>cuda:0\<close> exactly when the check answers true and \<^verbatim>\<open>cpu\<close> exactly when it answers
  false; the cell returns that device, prints it, and calls nothing else.
\<close>

theorem device_selection:
  "(device available = ''cuda:0'') = available
   \<and> (device available = ''cpu'') = (\<not> available)
   \<and> device_cell w = (Inr (device (cuda_available w)),
                       w\<lparr>stdout := stdout w @ [Out_device (device (cuda_available w))]\<rparr>)"
  by (simp add: device_def device_cell_def bindE_def readW_def print_def modifyW_def returnE_def)
section \<open>The model\<close>

text \<open>
  Claim C4. \<^verbatim>\<open>SimpleNet\<close> has exactly two linear layers, \<open>fc1\<close> from 784 features to 784
  and \<open>fc2\<close> from 784 to 10, so four parameters, of shapes \<open>[784, 784]\<close>, \<open>[784]\<close>,
  \<open>[10, 784]\<close> and \<open>[10]\<close>. Its forward pass calls, in this order and nothing else, the
  reshape to \<open>(batch_size, -1)\<close>, \<open>fc1\<close>, the activation, \<open>fc2\<close> and the softmax over
  dimension 1: on every run the calls made are an initial part of that list, and all of
  it when the pass returns. When the input is on the device of the parameters, what the
  pass returns is the softmax output, the composition \<open>forward_value\<close> of the five kernels
  on the input, on that device; when a kernel fails, the pass raises that failure.
\<close>

theorem SimpleNet_forward:
  "in_features (fc1 (SimpleNet_init rnd)) = 784 \<and> out_features (fc1 (SimpleNet_init rnd)) = 784
   \<and> in_features (fc2 (SimpleNet_init rnd)) = 784 \<and> out_features (fc2 (SimpleNet_init rnd)) = 10
   \<and> map fst (state_dict (SimpleNet_init rnd)) = [''fc1.weight'', ''fc1.bias'', ''fc2.weight'', ''fc2.bias'']
   \<and> map tval (parameters (SimpleNet_init rnd)) = [rnd [784, 784], rnd [784], rnd [10, 784], rnd [10]]
   \<and> prefix (map e_call (new_entries (forward F n x) w))
        [Call_view n, Call_linear ''fc1'', Call_relu, Call_linear ''fc2'', Call_softmax 1]
   \<and> (\<forall>r. fst (forward F n x w) = Inr r \<longrightarrow>
        map e_call (new_entries (forward F n x) w) =
          [Call_view n, Call_linear ''fc1'', Call_relu, Call_linear ''fc2'', Call_softmax 1])
   \<and> (on_device (tdev x) (model w) \<longrightarrow>
        fst (forward F n x w) =
          (case forward_value F (grad_enabled w) n (model w) (tval x) of
             Inl e \<Rightarrow> Inl e | Inr v \<Rightarrow> Inr \<lparr>tdev = tdev x, tval = v\<rparr>))"
proof -
  have layers: "in_features (fc1 (SimpleNet_init rnd)) = 784 \<and> out_features (fc1 (SimpleNet_init rnd)) = 784
   \<and> in_features (fc2 (SimpleNet_init rnd)) = 784 \<and> out_features (fc2 (SimpleNet_init rnd)) = 10"
    by (simp add: SimpleNet_init_def nn_Linear_def)
  have names: "map fst (state_dict (SimpleNet_init rnd)) = [''fc1.weight'', ''fc1.bias'', ''fc2.weight'', ''fc2.bias'']"
    by (simp add: state_dict_def)
  have shapes: "map tval (parameters (SimpleNet_init rnd)) = [rnd [784, 784], rnd [784], rnd [10, 784], rnd [10]]"
    by (simp add: parameters_def SimpleNet_init_def nn_Linear_def)
  have pre: "prefix (map e_call (new_entries (forward F n x) w))
        [Call_view n, Call_linear ''fc1'', Call_relu, Call_linear ''fc2'', Call_softmax 1]"
    using new_entries_prefix[OF emits_forward, of F n x w] by (simp add: forward_calls_def)
  have ret: "\<forall>r. fst (forward F n x w) = Inr r \<longrightarrow>
        map e_call (new_entries (forward F n x) w) =
          [Call_view n, Call_linear ''fc1'', Call_relu, Call_linear ''fc2'', Call_softmax 1]"
    using new_entries_returned[OF emits_forward, of F n x w] by (simp add: forward_calls_def)
  show ?thesis
    using layers names shapes pre ret forward_fst[of x w F n] by blast
qed

text \<open>The forward pass on the small instance: the input 3 on the CPU, a new model.\<close>

theorem SimpleNet_forward_witness:
  "on_device ''cpu'' (model (toy_world False))
   \<and> forward_value toy True 1 (model (toy_world False)) 3 = Inr 3
   \<and> fst (forward toy 1 \<lparr>tdev = ''cpu'', tval = 3\<rparr> (toy_world False)) = Inr \<lparr>tdev = ''cpu'', tval = 3\<rparr>
   \<and> map e_call (new_entries (forward toy 1 \<lparr>tdev = ''cpu'', tval = 3\<rparr>) (toy_world False)) =
        [Call_view 1, Call_linear ''fc1'', Call_relu, Call_linear ''fc2'', Call_softmax 1]"
proof -
  have dev: "on_device ''cpu'' (model (toy_world False))"
    by (simp add: on_device_def parameters_def toy_world_def SimpleNet_init_def nn_Linear_def)
  have val: "forward_value toy True 1 (model (toy_world False)) 3 = Inr 3"
    by (simp add: forward_value_def then_kernel_def toy_def toy_world_def SimpleNet_init_def nn_Linear_def)
  have g: "grad_enabled (toy_world False)" by (simp add: toy_world_def)
  from SimpleNet_forward[of "\<lambda>s. 0" toy 1 "\<lparr>tdev = ''cpu'', tval = 3\<rparr>" "toy_world False"] dev val g
  have res: "fst (forward toy 1 \<lparr>tdev = ''cpu'', tval = 3\<rparr> (toy_world False)) = Inr \<lparr>tdev = ''cpu'', tval = 3\<rparr>"
    by (elim conjE) simp
  with SimpleNet_forward[of "\<lambda>s. 0" toy 1 "\<lparr>tdev = ''cpu'', tval = 3\<rparr>" "toy_world False"]
  have "map e_call (new_entries (forward toy 1 \<lparr>tdev = ''cpu'', tval = 3\<rparr>) (toy_world False)) =
        [Call_view 1, Call_linear ''fc1'', Call_relu, Call_linear ''fc2'', Call_softmax 1]"
    by blast
  with dev val res show ?thesis by blast
qed

section \<open>Evaluation\<close>

text \<open>
  Claim C8. The two successive definitions of \<^verbatim>\<open>test\<close> in the training notebook are the
  same function: for every framework instance, device, batch size and loader, and from
  every state, the first definition (\<open>test_v1\<close>) and the second (\<open>test\<close>) return the same
  result and leave the same state, so the redefinition changes nothing.
\<close>

theorem test_redefinition: "test_v1 F d n l = test F d n l"
proof -
  have "test_v1_batch F d n = test_batch F d n"
    by (intro ext) (simp add: test_v1_batch_def test_batch_def)
  then show ?thesis by (simp add: test_v1_def test_def)
qed

text \<open>
  Claim C10. Whenever \<^verbatim>\<open>get_probs(model, x, y, device)\<close> returns a pair, its first
  component is the squeezed output of the forward pass on \<open>x\<close>, computed with gradient
  recording off and with the model's parameters moved to the device, and its second
  component is that first component indexed at \<open>y\<close>; both are on the device.
\<close>

theorem get_probs_result:
  "get_probs F n x y d w = (Inr (output, ground_truth), w') \<longrightarrow>
     (\<exists>v. forward_value F False n (move_parameters d (model w)) (tval x) = Inr v
          \<and> fw_kernel F Call_squeeze False [v] = Inr (tval output))
     \<and> fw_kernel F Call_index (grad_enabled w) [tval output, tval y] = Inr (tval ground_truth)
     \<and> tdev output = d \<and> tdev ground_truth = d"
proof
  assume run: "get_probs F n x y d w = (Inr (output, ground_truth), w')"
  from run obtain m1 w1 where s1: "Module_to d (model w) w = (Inr m1, w1)"
    and r1: "bindE (modifyW (\<lambda>w. w\<lparr>model := m1\<rparr>)) (\<lambda>_.
       bindE (Tensor_to d x) (\<lambda>x.
       bindE (Tensor_to d y) (\<lambda>y.
       bindE (no_grad (bindE (forward F n x) (\<lambda>output. tensor_op F Call_squeeze [output])))
         (\<lambda>output.
       bindE (tensor_op F Call_index [output, y]) (\<lambda>ground_truth.
       returnE (output, ground_truth)))))) w1 = (Inr (output, ground_truth), w')"
    unfolding get_probs_def by (auto simp: bindE_def readW_def split: sum.splits prod.splits)
  from s1 have m1: "m1 = move_parameters d (model w)" and g1: "grad_enabled w1 = grad_enabled w"
    by (auto simp: Module_to_run split: sum.splits)
  define w2 where "w2 = w1\<lparr>model := m1\<rparr>"
  from r1 obtain x1 w3 where s3: "Tensor_to d x w2 = (Inr x1, w3)"
    and r3: "bindE (Tensor_to d y) (\<lambda>y.
       bindE (no_grad (bindE (forward F n x1) (\<lambda>output. tensor_op F Call_squeeze [output])))
         (\<lambda>output.
       bindE (tensor_op F Call_index [output, y]) (\<lambda>ground_truth.
       returnE (output, ground_truth)))) w3 = (Inr (output, ground_truth), w')"
    unfolding w2_def by (auto simp: bindE_def modifyW_def split: sum.splits prod.splits)
  from s3 have x1: "x1 = x\<lparr>tdev := d\<rparr>" and w3: "model w3 = m1" "grad_enabled w3 = grad_enabled w"
    by (auto simp: Tensor_to_run w2_def g1 split: sum.splits)
  from r3 obtain y1 w4 where s4: "Tensor_to d y w3 = (Inr y1, w4)"
    and r4: "bindE (no_grad (bindE (forward F n x1) (\<lambda>output. tensor_op F Call_squeeze [output])))
         (\<lambda>output.
       bindE (tensor_op F Call_index [output, y1]) (\<lambda>ground_truth.
       returnE (output, ground_truth))) w4 = (Inr (output, ground_truth), w')"
    by (auto simp: bindE_def split: sum.splits prod.splits)
  from s4 have y1: "y1 = y\<lparr>tdev := d\<rparr>" and w4: "model w4 = m1" "grad_enabled w4 = grad_enabled w"
    using w3 by (auto simp: Tensor_to_run split: sum.splits)
  from r4 obtain out1 w5 where s5: "no_grad (bindE (forward F n x1) (\<lambda>output. tensor_op F Call_squeeze [output])) w4 = (Inr out1, w5)"
    and r5: "bindE (tensor_op F Call_index [out1, y1]) (\<lambda>ground_truth.
       returnE (out1, ground_truth)) w5 = (Inr (output, ground_truth), w')"
    by (auto simp: bindE_def split: sum.splits prod.splits)
  from s5 obtain w5' where b5: "bindE (forward F n x1) (\<lambda>output. tensor_op F Call_squeeze [output])
      (w4\<lparr>grad_enabled := False\<rparr>) = (Inr out1, w5')" and w5: "w5 = w5'\<lparr>grad_enabled := grad_enabled w4\<rparr>"
    by (auto simp: no_grad_def split: prod.splits)
  from b5 obtain o1 w6 where s6: "forward F n x1 (w4\<lparr>grad_enabled := False\<rparr>) = (Inr o1, w6)"
    and s7: "tensor_op F Call_squeeze [o1] w6 = (Inr out1, w5')"
    by (auto simp: bindE_def split: sum.splits prod.splits)
  have "on_device (tdev x1) (model (w4\<lparr>grad_enabled := False\<rparr>))"
    by (simp add: x1 w4 m1)
  from forward_returns[OF s6 this] have
    fv: "forward_value F False n (move_parameters d (model w)) (tval x) = Inr (tval o1)"
    and o1: "tdev o1 = d" and g6: "grad_enabled w6 = False"
    by (simp_all add: x1 w4 m1)
  from s7 g6 o1 have sq: "fw_kernel F Call_squeeze False [tval o1] = Inr (tval out1)" and od: "tdev out1 = d"
    by (auto simp: tensor_op_run same_device_def split: sum.splits if_splits)
  from s7 have "grad_enabled w5' = grad_enabled w6" by (auto simp: tensor_op_run split: if_splits)
  with w5 w4 have g5: "grad_enabled w5 = grad_enabled w" by simp
  from r5 obtain gt where s8: "tensor_op F Call_index [out1, y1] w5 = (Inr gt, w')"
    and res: "output = out1" "ground_truth = gt"
    by (auto simp: bindE_def returnE_def split: sum.splits prod.splits)
  from s8 g5 od have ix: "fw_kernel F Call_index (grad_enabled w) [tval out1, tval y] = Inr (tval gt)"
    and gd: "tdev gt = d"
    by (auto simp: tensor_op_run y1 split: sum.splits if_splits)
  from fv sq ix od gd res show
    "(\<exists>v. forward_value F False n (move_parameters d (model w)) (tval x) = Inr v
          \<and> fw_kernel F Call_squeeze False [v] = Inr (tval output))
     \<and> fw_kernel F Call_index (grad_enabled w) [tval output, tval y] = Inr (tval ground_truth)
     \<and> tdev output = d \<and> tdev ground_truth = d"
    by blast
qed


text \<open>A run of \<^verbatim>\<open>get_probs\<close> on the small instance that returns.\<close>

lemma toy_get_probs:
  "fst (get_probs toy 1 \<lparr>tdev = ''cpu'', tval = 3\<rparr> \<lparr>tdev = ''cpu'', tval = 1\<rparr> ''cpu'' (toy_world False))
     = Inr (\<lparr>tdev = ''cpu'', tval = 3\<rparr>, \<lparr>tdev = ''cpu'', tval = 4\<rparr>)"
  by (simp add: get_probs_def bindE_def readW_def Module_to_run modifyW_def Tensor_to_run
      device_ok_def no_grad_def forward_def tensor_op_run returnE_def same_device_def
      toy_def toy_world_def SimpleNet_init_def nn_Linear_def move_parameters_def)

theorem get_probs_result_witness:
  "fst (get_probs toy 1 \<lparr>tdev = ''cpu'', tval = 3\<rparr> \<lparr>tdev = ''cpu'', tval = 1\<rparr> ''cpu'' (toy_world False))
     = Inr (\<lparr>tdev = ''cpu'', tval = 3\<rparr>, \<lparr>tdev = ''cpu'', tval = 4\<rparr>)
   \<and> fw_kernel toy Call_index True [3, 1] = Inr 4"
proof -
  let ?run = "get_probs toy 1 \<lparr>tdev = ''cpu'', tval = 3\<rparr> \<lparr>tdev = ''cpu'', tval = 1\<rparr> ''cpu'' (toy_world False)"
  have run: "?run = (Inr (\<lparr>tdev = ''cpu'', tval = 3\<rparr>, \<lparr>tdev = ''cpu'', tval = 4\<rparr>), snd ?run)"
    using toy_get_probs by (simp add: prod_eq_iff)
  have g: "grad_enabled (toy_world False)" by (simp add: toy_world_def)
  from get_probs_result[of toy 1 "\<lparr>tdev = ''cpu'', tval = 3\<rparr>" "\<lparr>tdev = ''cpu'', tval = 1\<rparr>" "''cpu''"
      "toy_world False" "\<lparr>tdev = ''cpu'', tval = 3\<rparr>" "\<lparr>tdev = ''cpu'', tval = 4\<rparr>" "snd ?run"] run g
  have "fw_kernel toy Call_index True [3, 1] = Inr 4" by simp
  with toy_get_probs show ?thesis by simp
qed





section \<open>Training\<close>

text \<open>
  Claim C3. For every batch \<open>(data, target)\<close> of the training loader one training step
  makes these framework calls, in this order and no other: move \<open>data\<close> to the device, move
  \<open>target\<close> to the device, zero the optimiser's gradients, the five calls of the forward
  pass on \<open>data\<close>, the negative-log-likelihood loss (mean reduction) of the output against
  \<open>target\<close>, \<open>backward\<close> on the loss, the optimiser's \<open>step\<close>. On every run the calls of a
  step are an initial part of that list; on a step that returns they are the whole list,
  and the state it leaves is the optimiser's step applied to the parameters and to the
  gradients that \<open>backward\<close> computed, from freshly zeroed buffers, for the loss of this
  batch's output. A call of \<^verbatim>\<open>train\<close> that returns makes the call \<open>model.train()\<close> and then
  the calls of one step per batch. In \<^verbatim>\<open>test\<close>, every framework call other than
  \<open>model.eval()\<close> is made with gradient recording off, and the mode found at entry is
  restored at exit.
\<close>

theorem training_step:
  "prefix (map e_call (new_entries (train_batch F d n (data, target) ()) w))
      [Call_to d, Call_to d, Call_zero_grad, Call_view n, Call_linear ''fc1'', Call_relu,
       Call_linear ''fc2'', Call_softmax 1, Call_nll_loss Reduce_mean, Call_backward, Call_step]
   \<and> (train_batch F d n (data, target) () w = (Inr (), w') \<longrightarrow>
        map e_call (new_entries (train_batch F d n (data, target) ()) w) =
          [Call_to d, Call_to d, Call_zero_grad, Call_view n, Call_linear ''fc1'', Call_relu,
           Call_linear ''fc2'', Call_softmax 1, Call_nll_loss Reduce_mean, Call_backward, Call_step]
        \<and> (\<exists>out loss a.
              forward_value F (grad_enabled w) n (model w) (tval data) = Inr out
              \<and> fw_kernel F (Call_nll_loss Reduce_mean) (grad_enabled w) [out, tval target] = Inr loss
              \<and> fw_backward F loss (fw_zero_grad F (optimizer w)) = Inr a
              \<and> (parameter_values (model w'), optimizer w') = fw_step F (parameter_values (model w)) a))
   \<and> (fst (train F d n l epoch w) = Inr () \<longrightarrow>
        map e_call (new_entries (train F d n l epoch) w) =
          Call_train # concat (map (\<lambda>b.
            [Call_to d, Call_to d, Call_zero_grad, Call_view n, Call_linear ''fc1'', Call_relu,
             Call_linear ''fc2'', Call_softmax 1, Call_nll_loss Reduce_mean, Call_backward, Call_step])
            (batches l)))
   \<and> list_all (\<lambda>e. e_grad e \<longrightarrow> e_call e = Call_eval) (new_entries (test F d n l) w)
   \<and> grad_enabled (snd (test F d n l w)) = grad_enabled w"
proof -
  have a: "prefix (map e_call (new_entries (train_batch F d n (data, target) ()) w))
      [Call_to d, Call_to d, Call_zero_grad, Call_view n, Call_linear ''fc1'', Call_relu,
       Call_linear ''fc2'', Call_softmax 1, Call_nll_loss Reduce_mean, Call_backward, Call_step]"
    using new_entries_prefix[OF emits_train_batch, of F d n "(data, target)" "()" w]
    by (simp add: train_batch_calls_def forward_calls_def)
  have b: "train_batch F d n (data, target) () w = (Inr (), w') \<longrightarrow>
        map e_call (new_entries (train_batch F d n (data, target) ()) w) =
          [Call_to d, Call_to d, Call_zero_grad, Call_view n, Call_linear ''fc1'', Call_relu,
           Call_linear ''fc2'', Call_softmax 1, Call_nll_loss Reduce_mean, Call_backward, Call_step]"
    using new_entries_returned[OF emits_train_batch, of F d n "(data, target)" "()" w "()"]
    by (simp add: train_batch_calls_def forward_calls_def)
  have c: "train_batch F d n (data, target) () w = (Inr (), w') \<longrightarrow> (\<exists>out loss a.
              forward_value F (grad_enabled w) n (model w) (tval data) = Inr out
              \<and> fw_kernel F (Call_nll_loss Reduce_mean) (grad_enabled w) [out, tval target] = Inr loss
              \<and> fw_backward F loss (fw_zero_grad F (optimizer w)) = Inr a
              \<and> (parameter_values (model w'), optimizer w') = fw_step F (parameter_values (model w)) a)"
    using train_batch_returns[of F d n data target "()" w "()" w'] by blast
  have e: "fst (train F d n l epoch w) = Inr () \<longrightarrow>
        map e_call (new_entries (train F d n l epoch) w) =
          Call_train # concat (map (\<lambda>b.
            [Call_to d, Call_to d, Call_zero_grad, Call_view n, Call_linear ''fc1'', Call_relu,
             Call_linear ''fc2'', Call_softmax 1, Call_nll_loss Reduce_mean, Call_backward, Call_step])
            (batches l))"
    using new_entries_returned[OF emits_train, of F d n l epoch w "()"]
    by (simp add: train_calls_def train_batch_calls_def forward_calls_def)
  have f: "list_all (\<lambda>e. e_grad e \<longrightarrow> e_call e = Call_eval) (new_entries (test F d n l) w)"
    by (rule triple_new_entries[OF ng_test]) simp
  have g: "grad_enabled (snd (test F d n l w)) = grad_enabled w"
    by (rule test_restores_grad)
  from a b c e f g show ?thesis by blast
qed



text \<open>A step, a training pass and an evaluation pass on the small instance.\<close>

theorem training_step_witness:
  "train_batch toy ''cpu'' 1 (\<lparr>tdev = ''cpu'', tval = 3\<rparr>, \<lparr>tdev = ''cpu'', tval = 1\<rparr>) () (toy_world False)
     = (Inr (), snd (train_batch toy ''cpu'' 1 (\<lparr>tdev = ''cpu'', tval = 3\<rparr>, \<lparr>tdev = ''cpu'', tval = 1\<rparr>) ()
          (toy_world False)))
   \<and> map e_call (new_entries
        (train_batch toy ''cpu'' 1 (\<lparr>tdev = ''cpu'', tval = 3\<rparr>, \<lparr>tdev = ''cpu'', tval = 1\<rparr>) ())
        (toy_world False)) =
          [Call_to ''cpu'', Call_to ''cpu'', Call_zero_grad, Call_view 1, Call_linear ''fc1'', Call_relu,
           Call_linear ''fc2'', Call_softmax 1, Call_nll_loss Reduce_mean, Call_backward, Call_step]
   \<and> fst (train toy ''cpu'' 1 toy_loader 1 (toy_world False)) = Inr ()
   \<and> length (new_entries (train toy ''cpu'' 1 toy_loader 1) (toy_world False)) = 23
   \<and> list_all (\<lambda>e. e_grad e \<longrightarrow> e_call e = Call_eval)
        (new_entries (test toy ''cpu'' 1 toy_loader) (toy_world False))"
proof -
  let ?b = "(\<lparr>tdev = ''cpu'', tval = 3::int\<rparr>, \<lparr>tdev = ''cpu'', tval = 1::int\<rparr>)"
  let ?w = "toy_world False"
  note inst = training_step[where F=toy and d="''cpu''" and n=1 and data="fst ?b" and target="snd ?b"
      and w="?w" and w'="snd (train_batch toy ''cpu'' 1 ?b () ?w)" and l=toy_loader and epoch=1]
  have "fst (train_batch toy ''cpu'' 1 ?b () ?w) = Inr ()"
    using returns_fst[OF toy_train_batch_returns toy_world_on_cpu, of 1 ?b "()" False] by simp
  then have r1: "train_batch toy ''cpu'' 1 ?b () ?w = (Inr (), snd (train_batch toy ''cpu'' 1 ?b () ?w))"
    by (simp add: prod_eq_iff)
  with inst have c1: "map e_call (new_entries (train_batch toy ''cpu'' 1 ?b ()) ?w) =
          [Call_to ''cpu'', Call_to ''cpu'', Call_zero_grad, Call_view 1, Call_linear ''fc1'', Call_relu,
           Call_linear ''fc2'', Call_softmax 1, Call_nll_loss Reduce_mean, Call_backward, Call_step]"
    by simp
  have r2: "fst (train toy ''cpu'' 1 toy_loader 1 ?w) = Inr ()"
    using returns_fst[OF toy_train_returns toy_world_on_cpu, of 1 toy_loader 1 False] by simp
  with inst have "map e_call (new_entries (train toy ''cpu'' 1 toy_loader 1) ?w) =
          Call_train # concat (map (\<lambda>b.
            [Call_to ''cpu'', Call_to ''cpu'', Call_zero_grad, Call_view 1, Call_linear ''fc1'', Call_relu,
             Call_linear ''fc2'', Call_softmax 1, Call_nll_loss Reduce_mean, Call_backward, Call_step])
            (batches toy_loader))"
    by simp
  then have "length (map e_call (new_entries (train toy ''cpu'' 1 toy_loader 1) ?w)) = 23"
    by (simp add: toy_loader_def)
  then have c2: "length (new_entries (train toy ''cpu'' 1 toy_loader 1) ?w) = 23" by simp
  from inst have c3: "list_all (\<lambda>e. e_grad e \<longrightarrow> e_call e = Call_eval)
        (new_entries (test toy ''cpu'' 1 toy_loader) ?w)" by simp
  from r1 c1 r2 c2 c3 show ?thesis by simp
qed


text \<open>
  Claim C6. The cell \<^verbatim>\<open>model = SimpleNet().to(device)\<close>, when it returns, leaves every
  parameter of the model on the device. From a state where the parameters are on the
  device \<open>d\<close>, every framework call that \<^verbatim>\<open>train\<close>, \<^verbatim>\<open>test\<close> and the epoch loop make with
  that same \<open>d\<close> has all its tensor operands on \<open>d\<close>: the input, the weight and the bias of
  each layer call, the operands of the activation and of the softmax, the output and the
  target of the loss, the parameters the optimiser touches. The parameters are still on
  \<open>d\<close> afterwards. This holds on every run, also one that ends by an exception.
\<close>

theorem consistent_device:
  "(fst (model_cell rnd d w0) = Inr () \<longrightarrow> on_device d (model (snd (model_cell rnd d w0))))
   \<and> (on_device d (model w) \<longrightarrow>
        list_all (\<lambda>e. set (e_devs e) \<subseteq> {d}) (new_entries (train F d n trl epoch) w)
        \<and> on_device d (model (snd (train F d n trl epoch w)))
        \<and> list_all (\<lambda>e. set (e_devs e) \<subseteq> {d}) (new_entries (test F d n tsl) w)
        \<and> on_device d (model (snd (test F d n tsl w)))
        \<and> list_all (\<lambda>e. set (e_devs e) \<subseteq> {d}) (new_entries (epochs_cell F d trl tsl) w)
        \<and> on_device d (model (snd (epochs_cell F d trl tsl w))))"
proof -
  have a: "fst (model_cell rnd d w0) = Inr () \<longrightarrow> on_device d (model (snd (model_cell rnd d w0)))"
    using model_cell_on by blast
  have b: "on_device d (model w) \<longrightarrow>
        list_all (\<lambda>e. set (e_devs e) \<subseteq> {d}) (new_entries (train F d n trl epoch) w)
        \<and> on_device d (model (snd (train F d n trl epoch w)))"
    using triple_new_entries[OF on_train, of d w F n trl epoch] tripleD[OF on_train, of d w F n trl epoch]
    by (simp add: model_on_def devs_on_def[abs_def])
  have c: "on_device d (model w) \<longrightarrow>
        list_all (\<lambda>e. set (e_devs e) \<subseteq> {d}) (new_entries (test F d n tsl) w)
        \<and> on_device d (model (snd (test F d n tsl w)))"
    using triple_new_entries[OF on_test, of d w F n tsl] tripleD[OF on_test, of d w F n tsl]
    by (simp add: model_on_def devs_on_def[abs_def])
  have e: "on_device d (model w) \<longrightarrow>
        list_all (\<lambda>e. set (e_devs e) \<subseteq> {d}) (new_entries (epochs_cell F d trl tsl) w)
        \<and> on_device d (model (snd (epochs_cell F d trl tsl w)))"
    using triple_new_entries[OF on_epochs_cell, of d w F trl tsl] tripleD[OF on_epochs_cell, of d w F trl tsl]
    by (simp add: model_on_def devs_on_def[abs_def])
  from a b c e show ?thesis by blast
qed

text \<open>The model cell and the epoch loop on the small instance, on the CPU.\<close>

theorem consistent_device_witness:
  "fst (model_cell (\<lambda>shape. 0) ''cpu'' (toy_world False)) = Inr ()
   \<and> on_device ''cpu'' (model (snd (model_cell (\<lambda>shape. 0) ''cpu'' (toy_world False))))
   \<and> on_device ''cpu'' (model (toy_world False))
   \<and> list_all (\<lambda>e. set (e_devs e) \<subseteq> {''cpu''})
        (new_entries (epochs_cell toy ''cpu'' toy_loader toy_loader) (toy_world False))
   \<and> length (new_entries (epochs_cell toy ''cpu'' toy_loader toy_loader) (toy_world False)) = 260"
proof -
  let ?w = "toy_world False"
  note inst = consistent_device[where rnd="\<lambda>shape. 0" and d="''cpu''" and ?w0.0="?w" and w="?w"
      and F=toy and trl=toy_loader and tsl=toy_loader and n=1 and epoch=1]
  have m: "fst (model_cell (\<lambda>shape. 0) ''cpu'' ?w) = Inr ()"
    by (simp add: model_cell_def bindE_def Module_to_run device_ok_def modifyW_def)
  with inst have m': "on_device ''cpu'' (model (snd (model_cell (\<lambda>shape. 0) ''cpu'' ?w)))" by blast
  have o: "on_device ''cpu'' (model ?w)"
    using toy_world_on_cpu[of False] by (simp add: model_on_def)
  with inst have l: "list_all (\<lambda>e. set (e_devs e) \<subseteq> {''cpu''})
        (new_entries (epochs_cell toy ''cpu'' toy_loader toy_loader) ?w)" by blast
  have "fst (epochs_cell toy ''cpu'' toy_loader toy_loader ?w) = Inr ()"
    using returns_fst[OF toy_epochs_returns toy_world_on_cpu, of toy_loader toy_loader False]
    by (simp add: toy_loader_def)
  from new_entries_returned[OF emits_epochs_cell this]
  have "length (map e_call (new_entries (epochs_cell toy ''cpu'' toy_loader toy_loader) ?w)) =
      length (concat (replicate 5 (train_calls ''cpu'' batch_size_training toy_loader
        @ test_calls ''cpu'' batch_size_training toy_loader)))"
    by simp
  then have "length (map e_call (new_entries (epochs_cell toy ''cpu'' toy_loader toy_loader) ?w)) = 260"
    by (simp only: length_concat_replicate)
       (simp add: train_calls_def test_calls_def train_batch_calls_def test_batch_calls_def
        forward_calls_def toy_loader_def)
  then have n: "length (new_entries (epochs_cell toy ''cpu'' toy_loader toy_loader) ?w) = 260" by simp
  from m m' o l n show ?thesis by blast
qed





section \<open>Failures\<close>




section \<open>The weights file\<close>






end
